theory Spec2Isabelle
  imports Complex_Main "HOL-Library.AList" "HOL-Library.Multiset"
begin

section \<open>Values of the JavaScript runtime and of the document store\<close>

text \<open>
  The server (\<^verbatim>\<open>src/index.js\<close>) is a flat list of Express handlers over a MongoDB
  database. A handler reads the parsed JSON body, the path parameters and the query
  string, performs one to three store operations and answers with a status code and a
  JSON value. The model below follows that shape: JSON values are a datatype, a document
  is the field list of an object, a collection is the list of its documents in insertion
  order, the store is a record of the eight collections, and a handler is a function from
  its inputs and the store to a response and the store it leaves behind. An exception
  thrown inside a handler's \<^verbatim>\<open>try\<close> block is a value of type \<open>error\<close>, and the
  \<^verbatim>\<open>catch\<close> block turns it into the 500 response (of which the model keeps the
  status and the \<^verbatim>\<open>error\<close> message, not the echoed \<^verbatim>\<open>details\<close>).

  A request body is a JSON object, a path parameter is a string, a query parameter is a
  string or absent. The clock (\<^verbatim>\<open>new Date()\<close>) and the identifier that the driver
  generates for an insert are inputs of a handler: \<open>now\<close> and \<open>nid\<close>.

  The repository holds an earlier copy of the same server (\<^verbatim>\<open>src/unnamed/part_000\<close>):
  it registers \<^verbatim>\<open>GET /classes\<close> twice and without the search, its
  \<^verbatim>\<open>POST /trainers/apply\<close> stores the body as it is with \<^verbatim>\<open>status = "pending"\<close>, its
  approval copies fewer fields, and it ends before the routes that \<^verbatim>\<open>index.js\<close> adds
  after \<^verbatim>\<open>POST /payments\<close>. The definitions follow \<^verbatim>\<open>index.js\<close>.
\<close>

subsection \<open>Object identifiers\<close>

text \<open>
  An \<^verbatim>\<open>ObjectId\<close> is twelve bytes; its \<^verbatim>\<open>toString()\<close> is the 24-digit lower-case
  hexadecimal rendering, and the type below consists of exactly these renderings. The
  constructor \<^verbatim>\<open>new ObjectId(s)\<close> on a string accepts 24 hexadecimal digits of either
  case and throws on any other string (older versions of the driver also take a string
  of 12 characters as the twelve bytes; no statement below turns on such a string).
\<close>

definition is_hex :: "char \<Rightarrow> bool" where
  "is_hex c = (c \<in> set ''0123456789abcdefABCDEF'')"

definition is_lower_hex :: "char \<Rightarrow> bool" where
  "is_lower_hex c = (c \<in> set ''0123456789abcdef'')"

definition lower_hex :: "char \<Rightarrow> char" where
  "lower_hex c =
     (if c = CHR ''A'' then CHR ''a'' else if c = CHR ''B'' then CHR ''b''
      else if c = CHR ''C'' then CHR ''c'' else if c = CHR ''D'' then CHR ''d''
      else if c = CHR ''E'' then CHR ''e'' else if c = CHR ''F'' then CHR ''f'' else c)"

definition canonical_hex :: "string \<Rightarrow> bool" where
  "canonical_hex s = (length s = 24 \<and> list_all is_lower_hex s)"

typedef oid = "{s. canonical_hex s}"
  morphisms toString mk_oid
proof
  show "replicate 24 (CHR ''0'') \<in> {s. canonical_hex s}"
    by (simp add: canonical_hex_def is_lower_hex_def list_all_iff)
qed

datatype error = BSONError | DuplicateKey | WriteError | RegexError

definition ObjectId :: "string \<Rightarrow> error + oid" where
  "ObjectId s =
     (if length s = 24 \<and> list_all is_hex s then Inr (mk_oid (map lower_hex s))
      else Inl BSONError)"

subsection \<open>JSON values\<close>

text \<open>
  Numbers are idealised: a JavaScript number is \<open>NaN\<close> or a rational, so rounding of
  doubles and the infinities are outside the model. \<open>JUndefined\<close> is what reading an
  absent property gives; a parsed JSON body never contains it. \<open>JDate\<close> is a
  \<^verbatim>\<open>Date\<close> (milliseconds), \<open>JOid\<close> an \<^verbatim>\<open>ObjectId\<close>.
\<close>

datatype jsnum = NaN | Num rat

datatype json =
    JUndefined
  | JNull
  | JBool bool
  | JNum jsnum
  | JStr string
  | JArr "json list"
  | JObj "(string \<times> json) list"
  | JDate nat
  | JOid oid

type_synonym doc = "(string \<times> json) list"

text \<open>Property read \<^verbatim>\<open>o.k\<close>: the value of the first entry with that key, else undefined.\<close>

definition get :: "doc \<Rightarrow> string \<Rightarrow> json" where
  "get d k = (case map_of d k of None \<Rightarrow> JUndefined | Some v \<Rightarrow> v)"

text \<open>Property write \<^verbatim>\<open>o.k = v\<close>, also one entry of an object spread or of \<^verbatim>\<open>$set\<close>:
  the entry is replaced where it stands, or appended.\<close>

definition put :: "string \<Rightarrow> json \<Rightarrow> doc \<Rightarrow> doc" where
  "put k v d = AList.update k v d"

text \<open>JavaScript truthiness, as used by \<^verbatim>\<open>!x\<close>, \<^verbatim>\<open>x || y\<close> and \<^verbatim>\<open>c ? a : b\<close>.\<close>

fun truthy :: "json \<Rightarrow> bool" where
  "truthy JUndefined = False"
| "truthy JNull = False"
| "truthy (JBool b) = b"
| "truthy (JNum NaN) = False"
| "truthy (JNum (Num r)) = (r \<noteq> 0)"
| "truthy (JStr s) = (s \<noteq> [])"
| "truthy (JArr xs) = True"
| "truthy (JObj fs) = True"
| "truthy (JDate t) = True"
| "truthy (JOid i) = True"

definition js_or :: "json \<Rightarrow> json \<Rightarrow> json" where
  "js_or a b = (if truthy a then a else b)"

fun is_num :: "json \<Rightarrow> bool" where
  "is_num (JNum n) = True"
| "is_num v = False"

fun isArray :: "json \<Rightarrow> bool" where
  "isArray (JArr xs) = True"
| "isArray v = False"

text \<open>
  \<^verbatim>\<open>Number(v)\<close>. The conversion of a string (the numeric-literal grammar) and of an
  array or object (through its primitive value) belongs to the runtime and is the
  parameter \<open>rt\<close>; the other cases are fixed by the language.
\<close>

fun Number :: "(json \<Rightarrow> jsnum) \<Rightarrow> json \<Rightarrow> jsnum" where
  "Number rt JUndefined = NaN"
| "Number rt JNull = Num 0"
| "Number rt (JBool b) = Num (if b then 1 else 0)"
| "Number rt (JNum n) = n"
| "Number rt v = rt v"

subsection \<open>Responses\<close>

record response =
  status :: nat
  body :: json

text \<open>\<^verbatim>\<open>res.json(v)\<close> answers with status 200; \<^verbatim>\<open>res.status(n).json(v)\<close> with \<open>n\<close>.\<close>

definition res_json :: "json \<Rightarrow> response" where
  "res_json v = \<lparr>status = 200, body = v\<rparr>"

definition res_status :: "nat \<Rightarrow> json \<Rightarrow> response" where
  "res_status n v = \<lparr>status = n, body = v\<rparr>"

definition err_body :: "string \<Rightarrow> json" where
  "err_body m = JObj [(''error'', JStr m)]"

section \<open>The document store\<close>

record store =
  users :: "doc list"
  testimonials :: "doc list"
  classes :: "doc list"
  trainers :: "doc list"
  forum :: "doc list"
  subscriber :: "doc list"
  reviews :: "doc list"
  bookings :: "doc list"

text \<open>Filters. \<open>field_eq k v\<close> is the query \<^verbatim>\<open>{k: v}\<close>: the field equals the value
  (the statements below use it with string values). \<open>by_id i\<close> is \<^verbatim>\<open>{_id: i}\<close> for
  an \<^verbatim>\<open>ObjectId\<close> \<open>i\<close>.\<close>

definition field_eq :: "string \<Rightarrow> json \<Rightarrow> doc \<Rightarrow> bool" where
  "field_eq k v d = (get d k = v)"

definition by_id :: "oid \<Rightarrow> doc \<Rightarrow> bool" where
  "by_id i d = (get d ''_id'' = JOid i)"

text \<open>\<^verbatim>\<open>findOne\<close>: the first matching document in insertion order, or null.\<close>

definition findOne :: "(doc \<Rightarrow> bool) \<Rightarrow> doc list \<Rightarrow> doc option" where
  "findOne p col = List.find p col"

text \<open>The identifiers present in a collection.\<close>

definition ids :: "doc list \<Rightarrow> json list" where
  "ids col = map (\<lambda>d. get d ''_id'') col"

text \<open>
  \<^verbatim>\<open>insertOne\<close>. The driver gives a document without \<^verbatim>\<open>_id\<close> a generated
  \<^verbatim>\<open>ObjectId\<close> (the argument \<open>nid\<close>, which the handler cannot choose); the store
  refuses an identifier it already holds (duplicate key), and the driver throws. The
  result carries \<^verbatim>\<open>insertedId\<close>.
\<close>

definition insertOne :: "oid \<Rightarrow> doc \<Rightarrow> doc list \<Rightarrow> error + (json \<times> doc list)" where
  "insertOne nid d col =
     (let d' = (if get d ''_id'' = JUndefined \<or> get d ''_id'' = JNull
                then put ''_id'' (JOid nid) d else d);
          i = get d' ''_id''
      in if i \<in> set (ids col) then Inl DuplicateKey else Inr (i, col @ [d']))"

text \<open>
  \<^verbatim>\<open>updateOne(filter, update)\<close> applies the update to the first matching document.
  The result carries \<^verbatim>\<open>modifiedCount\<close>: 1 when a document matched and the update
  changed it, else 0. An update operator the store cannot apply makes the call throw.
\<close>

fun updateOne :: "(doc \<Rightarrow> bool) \<Rightarrow> (doc \<Rightarrow> error + doc) \<Rightarrow> doc list \<Rightarrow> error + (nat \<times> doc list)" where
  "updateOne p u [] = Inr (0, [])"
| "updateOne p u (d # ds) =
     (if p d then
        (case u d of
           Inl e \<Rightarrow> Inl e
         | Inr d' \<Rightarrow> Inr (if d' = d then 0 else 1, d' # ds))
      else
        (case updateOne p u ds of
           Inl e \<Rightarrow> Inl e
         | Inr (n, ds') \<Rightarrow> Inr (n, d # ds')))"

text \<open>\<^verbatim>\<open>deleteOne(filter)\<close> removes the first matching document.\<close>

fun deleteOne :: "(doc \<Rightarrow> bool) \<Rightarrow> doc list \<Rightarrow> doc list" where
  "deleteOne p [] = []"
| "deleteOne p (d # ds) = (if p d then ds else d # deleteOne p ds)"

text \<open>
  The update operators \<^verbatim>\<open>$set\<close>, \<^verbatim>\<open>$inc\<close> and \<^verbatim>\<open>$push\<close>. \<^verbatim>\<open>$inc\<close> creates an
  absent field and fails on a field that is not a number; \<^verbatim>\<open>$push\<close> creates an absent
  field and fails on a field that is not an array.

  The store keeps a number as a 32-bit integer, a 64-bit integer or a double. On
  integers of magnitude at most \<open>2^53\<close> (\<open>safe_int\<close>) the three agree and the sum is
  exact; any other sum is the store's own arithmetic, the parameter \<open>add\<close>: a double
  is rounded, a 64-bit integer that overflows makes the update fail.
\<close>

definition set_op :: "(string \<times> json) list \<Rightarrow> doc \<Rightarrow> error + doc" where
  "set_op kvs d = Inr (fold (\<lambda>(k, v). put k v) kvs d)"

definition safe_int :: "rat \<Rightarrow> bool" where
  "safe_int r = (r = of_int \<lfloor>r\<rfloor> \<and> \<bar>r\<bar> \<le> 9007199254740992)"

definition inc_op :: "(rat \<Rightarrow> rat \<Rightarrow> error + jsnum) \<Rightarrow> string \<Rightarrow> rat \<Rightarrow> doc \<Rightarrow> error + doc" where
  "inc_op add k n d =
     (case map_of d k of
        None \<Rightarrow> Inr (put k (JNum (Num n)) d)
      | Some (JNum (Num m)) \<Rightarrow>
          (if safe_int m \<and> safe_int n \<and> safe_int (m + n)
           then Inr (put k (JNum (Num (m + n))) d)
           else (case add m n of Inl e \<Rightarrow> Inl e | Inr r \<Rightarrow> Inr (put k (JNum r) d)))
      | Some (JNum NaN) \<Rightarrow> Inr d
      | Some _ \<Rightarrow> Inl WriteError)"

definition push_op :: "string \<Rightarrow> json \<Rightarrow> doc \<Rightarrow> error + doc" where
  "push_op k v d =
     (case map_of d k of
        None \<Rightarrow> Inr (put k (JArr [v]) d)
      | Some (JArr xs) \<Rightarrow> Inr (put k (JArr (xs @ [v])) d)
      | Some _ \<Rightarrow> Inl WriteError)"

text \<open>
  \<^verbatim>\<open>.sort({createdAt: -1})\<close>: newest first. Every handler that stamps a document
  writes a \<^verbatim>\<open>Date\<close>; documents whose \<^verbatim>\<open>createdAt\<close> is not a date come after all
  dated ones, and documents that compare equal keep their insertion order.
\<close>

definition created_key :: "doc \<Rightarrow> int" where
  "created_key d = (case get d ''createdAt'' of JDate t \<Rightarrow> - int t - 1 | _ \<Rightarrow> 0)"

definition sort_newest :: "doc list \<Rightarrow> doc list" where
  "sort_newest col = sort_key created_key col"

definition docs :: "doc list \<Rightarrow> json" where
  "docs ds = JArr (map JObj ds)"

definition jint :: "int \<Rightarrow> json" where
  "jint n = JNum (Num (of_int n))"

subsection \<open>Query-string numbers\<close>

text \<open>
  \<^verbatim>\<open>parseInt(s)\<close>: leading white space is skipped, a sign is read, a prefix
  \<^verbatim>\<open>0x\<close> selects radix 16, and the longest run of digits is the value; without a
  digit the result is \<^verbatim>\<open>NaN\<close> (here \<open>None\<close>). An absent query parameter is
  \<^verbatim>\<open>undefined\<close>, which parses to \<^verbatim>\<open>NaN\<close>. The value here is the exact integer; the
  language rounds it to a double, which is the same number up to \<open>2^53\<close>.

  A string of the model is the UTF-8 encoding of the JavaScript string. White space is
  what the language calls so: the characters 9 to 13 and 32 (\<open>is_space\<close>), and beyond
  ASCII the characters U+00A0, U+1680, U+2000 to U+200A, U+2028, U+2029, U+202F,
  U+205F, U+3000 and U+FEFF, whose encodings of two and three bytes are
  \<open>wide_space\<close>.
\<close>

definition is_space :: "char \<Rightarrow> bool" where
  "is_space c = (of_char c \<in> {9, 10, 11, 12, 13, 32 :: nat})"

definition wide_space :: "nat list \<Rightarrow> bool" where
  "wide_space bs =
     (bs \<in> set [[194, 160], [225, 154, 128],
        [226, 128, 128], [226, 128, 129], [226, 128, 130], [226, 128, 131], [226, 128, 132],
        [226, 128, 133], [226, 128, 134], [226, 128, 135], [226, 128, 136], [226, 128, 137],
        [226, 128, 138], [226, 128, 168], [226, 128, 169], [226, 128, 175], [226, 129, 159],
        [227, 128, 128], [239, 187, 191]])"

fun skip_space :: "string \<Rightarrow> string" where
  "skip_space [] = []"
| "skip_space (c # cs) =
     (if is_space c then skip_space cs
      else if wide_space (map of_char (c # take 1 cs)) then skip_space (drop 1 cs)
      else if wide_space (map of_char (c # take 2 cs)) then skip_space (drop 2 cs)
      else c # cs)"

definition digit10 :: "char \<Rightarrow> nat option" where
  "digit10 c = (let n = of_char c :: nat in if 48 \<le> n \<and> n \<le> 57 then Some (n - 48) else None)"

definition digit16 :: "char \<Rightarrow> nat option" where
  "digit16 c =
     (let n = of_char c :: nat in
      if 48 \<le> n \<and> n \<le> 57 then Some (n - 48)
      else if 97 \<le> n \<and> n \<le> 102 then Some (n - 87)
      else if 65 \<le> n \<and> n \<le> 70 then Some (n - 55)
      else None)"

fun leading_digits :: "(char \<Rightarrow> nat option) \<Rightarrow> string \<Rightarrow> nat list" where
  "leading_digits f [] = []"
| "leading_digits f (c # cs) = (case f c of None \<Rightarrow> [] | Some d \<Rightarrow> d # leading_digits f cs)"

definition radix_val :: "nat \<Rightarrow> nat list \<Rightarrow> nat" where
  "radix_val r ds = foldl (\<lambda>a d. r * a + d) 0 ds"

definition parseInt :: "string \<Rightarrow> int option" where
  "parseInt s =
     (let s1 = skip_space s;
          neg = (case s1 of [] \<Rightarrow> False | c # r \<Rightarrow> c = CHR ''-'');
          s2 = (case s1 of [] \<Rightarrow> [] | c # r \<Rightarrow> if c = CHR ''-'' \<or> c = CHR ''+'' then r else s1);
          hex = (take 2 s2 = ''0x'' \<or> take 2 s2 = ''0X'');
          ds = (if hex then leading_digits digit16 (drop 2 s2) else leading_digits digit10 s2);
          v = int (radix_val (if hex then 16 else 10) ds)
      in if ds = [] then None else Some (if neg then - v else v))"

text \<open>\<^verbatim>\<open>parseInt(q) || dflt\<close>: \<^verbatim>\<open>NaN\<close> and 0 are falsy.\<close>

definition parse_or :: "string option \<Rightarrow> int \<Rightarrow> int" where
  "parse_or q dflt =
     (case q of
        None \<Rightarrow> dflt
      | Some s \<Rightarrow> (case parseInt s of None \<Rightarrow> dflt | Some n \<Rightarrow> if n = 0 then dflt else n))"

text \<open>\<^verbatim>\<open>.skip(s).limit(l)\<close> on a cursor: the store rejects a negative skip and reads a
  negative limit as its absolute value.\<close>

definition skip_limit :: "int \<Rightarrow> int \<Rightarrow> doc list \<Rightarrow> error + doc list" where
  "skip_limit s l ds =
     (if s < 0 then Inl WriteError
      else Inr (if l = 0 then drop (nat s) ds else take (nat \<bar>l\<bar>) (drop (nat s) ds)))"

text \<open>\<^verbatim>\<open>Math.ceil(total / limit)\<close> for a non-zero limit.\<close>

definition total_pages :: "nat \<Rightarrow> int \<Rightarrow> int" where
  "total_pages n limit = \<lceil>(of_nat n :: rat) / of_int limit\<rceil>"

section \<open>Handlers: trainer lookup by email\<close>

text \<open>
  \<^verbatim>\<open>GET /trainers/by-email/:email\<close> (no \<^verbatim>\<open>try\<close>, no check of the result):
  \<^verbatim>\<open>res.json(trainer)\<close>, where a missing trainer is \<^verbatim>\<open>null\<close>.
\<close>

definition get_trainers_by_email :: "string \<Rightarrow> store \<Rightarrow> response" where
  "get_trainers_by_email email st =
     (let trainer = findOne (field_eq ''email'' (JStr email)) (trainers st)
      in res_json (case trainer of None \<Rightarrow> JNull | Some t \<Rightarrow> JObj t))"

text \<open>\<^verbatim>\<open>GET /trainers/email/:email\<close>: 404 when no trainer has that email.\<close>

definition get_trainers_email :: "string \<Rightarrow> store \<Rightarrow> response" where
  "get_trainers_email email st =
     (let trainer = findOne (field_eq ''email'' (JStr email)) (trainers st)
      in case trainer of
           None \<Rightarrow> res_status 404 (err_body ''Trainer not found'')
         | Some t \<Rightarrow> res_json (JObj t))"

section \<open>Handlers: users\<close>

text \<open>\<^verbatim>\<open>GET /users\<close>.\<close>

definition get_users :: "store \<Rightarrow> response" where
  "get_users st = res_json (docs (users st))"

text \<open>
  \<^verbatim>\<open>POST /users\<close>: 400 without an email; an existing user (looked up by email) is
  answered with 200, after \<^verbatim>\<open>role\<close> has been set to \<^verbatim>\<open>"member"\<close> in the store and in
  the answer when it was missing; a new user is inserted with that role, 201.
\<close>

definition post_users :: "oid \<Rightarrow> doc \<Rightarrow> store \<Rightarrow> response \<times> store" where
  "post_users nid user st =
     (if \<not> truthy (get user ''email'') then
        (res_status 400 (err_body ''Email is required''), st)
      else
        (case findOne (field_eq ''email'' (get user ''email'')) (users st) of
           Some existingUser \<Rightarrow>
             (if \<not> truthy (get existingUser ''role'') then
                (case updateOne (field_eq ''email'' (get user ''email''))
                        (set_op [(''role'', JStr ''member'')]) (users st) of
                   Inl e \<Rightarrow> (res_status 500 (err_body ''Failed to save user''), st)
                 | Inr (n, us) \<Rightarrow>
                     (res_status 200 (JObj [(''message'', JStr ''User already exists''),
                        (''user'', JObj (put ''role'' (JStr ''member'') existingUser))]),
                      st\<lparr>users := us\<rparr>))
              else
                (res_status 200 (JObj [(''message'', JStr ''User already exists''),
                   (''user'', JObj existingUser)]), st))
         | None \<Rightarrow>
             (case insertOne nid (put ''role'' (JStr ''member'') user) (users st) of
                Inl e \<Rightarrow> (res_status 500 (err_body ''Failed to save user''), st)
              | Inr (i, us) \<Rightarrow>
                  (res_status 201 (JObj [(''message'', JStr ''User registered successfully''),
                     (''insertedId'', i)]), st\<lparr>users := us\<rparr>))))"

section \<open>Handlers: testimonials\<close>

text \<open>\<^verbatim>\<open>POST /testimonials\<close>: \<^verbatim>\<open>name\<close> and \<^verbatim>\<open>review\<close> are required; the body is
  stamped with \<^verbatim>\<open>createdAt\<close> (the clock reading \<open>now\<close>) and inserted.\<close>

definition post_testimonials :: "nat \<Rightarrow> oid \<Rightarrow> doc \<Rightarrow> store \<Rightarrow> response \<times> store" where
  "post_testimonials now nid testimonial st =
     (if \<not> truthy (get testimonial ''name'') \<or> \<not> truthy (get testimonial ''review'') then
        (res_status 400 (err_body ''Name and review are required''), st)
      else
        (case insertOne nid (put ''createdAt'' (JDate now) testimonial) (testimonials st) of
           Inl e \<Rightarrow> (res_status 500 (err_body ''Failed to add testimonial''), st)
         | Inr (i, ts) \<Rightarrow>
             (res_status 201 (JObj [(''message'', JStr ''Testimonial added successfully''),
                (''id'', i)]), st\<lparr>testimonials := ts\<rparr>)))"

definition get_testimonials :: "store \<Rightarrow> response" where
  "get_testimonials st = res_json (docs (sort_newest (testimonials st)))"

section \<open>Handlers: classes\<close>

text \<open>\<^verbatim>\<open>POST /classes\<close>: \<^verbatim>\<open>name\<close>, \<^verbatim>\<open>image\<close> and \<^verbatim>\<open>details\<close> are required; the
  body gets \<^verbatim>\<open>createdAt\<close> and \<^verbatim>\<open>totalBookings = 0\<close>.\<close>

definition post_classes :: "nat \<Rightarrow> oid \<Rightarrow> doc \<Rightarrow> store \<Rightarrow> response \<times> store" where
  "post_classes now nid newClass st =
     (if \<not> truthy (get newClass ''name'') \<or> \<not> truthy (get newClass ''image'')
          \<or> \<not> truthy (get newClass ''details'') then
        (res_status 400 (err_body ''Class name, image, and details are required''), st)
      else
        (case insertOne nid
                (put ''totalBookings'' (jint 0) (put ''createdAt'' (JDate now) newClass))
                (classes st) of
           Inl e \<Rightarrow> (res_status 500 (err_body ''Failed to add class''), st)
         | Inr (i, cs) \<Rightarrow>
             (res_status 201 (JObj [(''message'', JStr ''Class added successfully''),
                (''insertedId'', i)]), st\<lparr>classes := cs\<rparr>)))"

text \<open>
  The filter of \<^verbatim>\<open>GET /classes\<close>: \<^verbatim>\<open>{}\<close> for an empty search, else
  \<^verbatim>\<open>{name: {$regex: search, $options: "i"}}\<close>. Regular-expression matching is the
  store's: \<open>rx pat\<close> is the case-insensitive matcher of the pattern, or \<open>None\<close> when
  the store rejects the pattern (the query then throws). A \<^verbatim>\<open>name\<close> matches when it is
  a string that the pattern matches, or an array with such a string among its elements;
  no other value matches.
\<close>

fun regex_match :: "(string \<Rightarrow> bool) \<Rightarrow> json \<Rightarrow> bool" where
  "regex_match m (JStr n) = m n"
| "regex_match m (JArr xs) = list_ex (\<lambda>x. case x of JStr n \<Rightarrow> m n | _ \<Rightarrow> False) xs"
| "regex_match m _ = False"

definition class_query :: "(string \<Rightarrow> (string \<Rightarrow> bool) option) \<Rightarrow> string \<Rightarrow> error + (doc \<Rightarrow> bool)" where
  "class_query rx search =
     (if search = [] then Inr (\<lambda>d. True)
      else
        (case rx search of
           None \<Rightarrow> Inl RegexError
         | Some m \<Rightarrow> Inr (\<lambda>d. regex_match m (get d ''name''))))"

text \<open>\<^verbatim>\<open>GET /classes?page=..&limit=..&search=..\<close>; each query parameter is a string or
  absent.\<close>

definition get_classes :: "(string \<Rightarrow> (string \<Rightarrow> bool) option) \<Rightarrow> string option \<Rightarrow> string option \<Rightarrow> string option \<Rightarrow> store \<Rightarrow> response" where
  "get_classes rx qpage qlimit qsearch st =
     (let page = parse_or qpage 1;
          limit = parse_or qlimit 6;
          skip = (page - 1) * limit;
          search = (case qsearch of None \<Rightarrow> [] | Some s \<Rightarrow> s)
      in case class_query rx search of
           Inl e \<Rightarrow> res_status 500 (err_body ''Failed to fetch classes'')
         | Inr query \<Rightarrow>
             (let totalClasses = length (filter query (classes st))
              in case skip_limit skip limit (sort_newest (filter query (classes st))) of
                   Inl e \<Rightarrow> res_status 500 (err_body ''Failed to fetch classes'')
                 | Inr cs \<Rightarrow>
                     res_json (JObj [(''data'', docs cs),
                       (''currentPage'', jint page),
                       (''totalPages'', jint (total_pages totalClasses limit)),
                       (''totalClasses'', jint (int totalClasses))])))"

section \<open>Handlers: trainers and trainer applications\<close>

definition get_trainers :: "store \<Rightarrow> response" where
  "get_trainers st = res_json (docs (sort_newest (trainers st)))"

text \<open>
  \<^verbatim>\<open>POST /trainers/apply\<close>. The document is built field by field from the body.
\<close>

definition default_socials :: json where
  "default_socials =
     JObj [(''facebook'', JStr []), (''instagram'', JStr []), (''linkedin'', JStr [])]"

definition newTrainer :: "(json \<Rightarrow> jsnum) \<Rightarrow> nat \<Rightarrow> doc \<Rightarrow> doc" where
  "newTrainer rt now trainer =
     [(''name'', get trainer ''name''),
      (''email'', get trainer ''email''),
      (''age'', JNum (Number rt (get trainer ''age''))),
      (''image'', get trainer ''image''),
      (''experience'', JNum (Number rt (get trainer ''experience''))),
      (''details'', js_or (get trainer ''details'') (JStr [])),
      (''expertise'',
         if isArray (get trainer ''expertise'') then get trainer ''expertise'' else JArr []),
      (''availableDays'',
         if isArray (get trainer ''availableDays'') then get trainer ''availableDays'' else JArr []),
      (''availableSlots'',
         if isArray (get trainer ''availableSlots'') then get trainer ''availableSlots'' else JArr []),
      (''socials'', js_or (get trainer ''socials'') default_socials),
      (''status'', js_or (get trainer ''status'') (JStr ''pending'')),
      (''createdAt'', JDate now)]"

definition post_trainers_apply :: "(json \<Rightarrow> jsnum) \<Rightarrow> nat \<Rightarrow> oid \<Rightarrow> doc \<Rightarrow> store \<Rightarrow> response \<times> store" where
  "post_trainers_apply rt now nid trainer st =
     (case insertOne nid (newTrainer rt now trainer) (trainers st) of
        Inl e \<Rightarrow> (res_status 500 (err_body ''Failed to submit application''), st)
      | Inr (i, ts) \<Rightarrow>
          (res_json (JObj [(''success'', JBool True), (''insertedId'', i)]), st\<lparr>trainers := ts\<rparr>))"

text \<open>\<^verbatim>\<open>GET /trainers/applications/pending\<close>: the filter \<^verbatim>\<open>{status: "pending"}\<close>.\<close>

definition pending_applications :: "store \<Rightarrow> doc list" where
  "pending_applications st = filter (field_eq ''status'' (JStr ''pending'')) (trainers st)"

definition get_applications_pending :: "store \<Rightarrow> response" where
  "get_applications_pending st = res_json (docs (pending_applications st))"

text \<open>
  \<^verbatim>\<open>PATCH /trainers/applications/:id/confirm\<close>: look the applicant up by id (404 when
  absent), insert the approved copy, delete the original by id.
\<close>

definition approved_copy :: "nat \<Rightarrow> doc \<Rightarrow> doc" where
  "approved_copy now applicant =
     [(''name'', get applicant ''name''),
      (''email'', get applicant ''email''),
      (''age'', get applicant ''age''),
      (''image'', get applicant ''image''),
      (''experience'', get applicant ''experience''),
      (''details'', get applicant ''details''),
      (''expertise'', js_or (get applicant ''expertise'') (JArr [])),
      (''availableDays'', js_or (get applicant ''availableDays'') (JArr [])),
      (''availableSlots'', js_or (get applicant ''availableSlots'') (JArr [])),
      (''socials'', js_or (get applicant ''socials'') (JObj [])),
      (''status'', JStr ''approved''),
      (''createdAt'', JDate now)]"

definition patch_confirm :: "nat \<Rightarrow> oid \<Rightarrow> string \<Rightarrow> store \<Rightarrow> response \<times> store" where
  "patch_confirm now nid id_param st =
     (case ObjectId id_param of
        Inl e \<Rightarrow> (res_status 500 (err_body ''Failed to confirm trainer''), st)
      | Inr i \<Rightarrow>
          (case findOne (by_id i) (trainers st) of
             None \<Rightarrow> (res_status 404 (err_body ''Applicant not found''), st)
           | Some applicant \<Rightarrow>
               (case insertOne nid (approved_copy now applicant) (trainers st) of
                  Inl e \<Rightarrow> (res_status 500 (err_body ''Failed to confirm trainer''), st)
                | Inr (j, ts) \<Rightarrow>
                    (res_json (JObj [(''success'', JBool True),
                       (''message'', JStr ''Trainer approved and added'')]),
                     st\<lparr>trainers := deleteOne (by_id i) ts\<rparr>))))"

text \<open>
  \<^verbatim>\<open>PATCH /trainers/applications/:id/reject\<close>: one \<^verbatim>\<open>updateOne\<close> with \<^verbatim>\<open>$set\<close>;
  404 when \<^verbatim>\<open>modifiedCount\<close> is 0.
\<close>

definition patch_reject :: "string \<Rightarrow> doc \<Rightarrow> store \<Rightarrow> response \<times> store" where
  "patch_reject id_param reqbody st =
     (case ObjectId id_param of
        Inl e \<Rightarrow> (res_status 500 (err_body ''Failed to reject trainer''), st)
      | Inr i \<Rightarrow>
          (case updateOne (by_id i)
                  (set_op [(''status'', JStr ''rejected''),
                     (''feedback'', js_or (get reqbody ''feedback'') (JStr ''No feedback provided''))])
                  (trainers st) of
             Inl e \<Rightarrow> (res_status 500 (err_body ''Failed to reject trainer''), st)
           | Inr (modifiedCount, ts) \<Rightarrow>
               (if modifiedCount = 0 then
                  (res_status 404 (err_body ''Applicant not found or already rejected''),
                   st\<lparr>trainers := ts\<rparr>)
                else
                  (res_json (JObj [(''success'', JBool True),
                     (''message'', JStr ''Application rejected with feedback'')]),
                   st\<lparr>trainers := ts\<rparr>))))"

text \<open>
  The two routes that add a slot: \<^verbatim>\<open>PATCH /trainers/:id/add-slot\<close> tests
  \<^verbatim>\<open>modifiedCount\<close>, \<^verbatim>\<open>POST /trainers/:id/slots\<close> does not. The pushed value is the
  whole request body.
\<close>

definition patch_add_slot :: "string \<Rightarrow> doc \<Rightarrow> store \<Rightarrow> response \<times> store" where
  "patch_add_slot id_param newSlot st =
     (case ObjectId id_param of
        Inl e \<Rightarrow> (res_status 500 (err_body ''Failed to add slot''), st)
      | Inr i \<Rightarrow>
          (case updateOne (by_id i) (push_op ''availableSlots'' (JObj newSlot)) (trainers st) of
             Inl e \<Rightarrow> (res_status 500 (err_body ''Failed to add slot''), st)
           | Inr (modifiedCount, ts) \<Rightarrow>
               (if modifiedCount = 0 then
                  (res_status 404 (err_body ''Trainer not found''), st\<lparr>trainers := ts\<rparr>)
                else
                  (res_json (JObj [(''success'', JBool True),
                     (''message'', JStr ''Slot added successfully'')]),
                   st\<lparr>trainers := ts\<rparr>))))"

definition post_slots :: "string \<Rightarrow> doc \<Rightarrow> store \<Rightarrow> response \<times> store" where
  "post_slots id_param newSlot st =
     (case ObjectId id_param of
        Inl e \<Rightarrow> (res_status 500 (err_body ''Failed to add slot''), st)
      | Inr i \<Rightarrow>
          (case updateOne (by_id i) (push_op ''availableSlots'' (JObj newSlot)) (trainers st) of
             Inl e \<Rightarrow> (res_status 500 (err_body ''Failed to add slot''), st)
           | Inr (modifiedCount, ts) \<Rightarrow>
               (res_json (JObj [(''success'', JBool True),
                  (''message'', JStr ''New slot added successfully'')]),
                st\<lparr>trainers := ts\<rparr>)))"

section \<open>Handlers: forum\<close>

text \<open>\<^verbatim>\<open>GET /forum?page=..\<close>, six posts a page.\<close>

definition get_forum :: "string option \<Rightarrow> store \<Rightarrow> response" where
  "get_forum qpage st =
     (let page = parse_or qpage 1;
          limit = 6;
          skip = (page - 1) * limit;
          totalPosts = length (forum st)
      in case skip_limit skip limit (sort_newest (forum st)) of
           Inl e \<Rightarrow> res_status 500 (err_body ''Failed to fetch forum posts'')
         | Inr posts \<Rightarrow>
             res_json (JObj [(''posts'', docs posts),
               (''totalPages'', jint (total_pages totalPosts limit)),
               (''currentPage'', jint page)]))"

text \<open>\<^verbatim>\<open>POST /forum\<close>: the body is inserted as it is.\<close>

definition post_forum :: "oid \<Rightarrow> doc \<Rightarrow> store \<Rightarrow> response \<times> store" where
  "post_forum nid post st =
     (case insertOne nid post (forum st) of
        Inl e \<Rightarrow> (res_status 500 (err_body ''Failed to add forum post''), st)
      | Inr (i, fs) \<Rightarrow>
          (res_json (JObj [(''success'', JBool True), (''message'', JStr ''Forum post added!'')]),
           st\<lparr>forum := fs\<rparr>))"

text \<open>\<^verbatim>\<open>PATCH /forum/:id/vote\<close>: \<^verbatim>\<open>$inc\<close> of \<^verbatim>\<open>upvotes\<close> when
  \<^verbatim>\<open>voteType === "up"\<close>, of \<^verbatim>\<open>downvotes\<close> otherwise; the result of the update is not
  looked at.\<close>

definition patch_vote :: "(rat \<Rightarrow> rat \<Rightarrow> error + jsnum) \<Rightarrow> string \<Rightarrow> doc \<Rightarrow> store \<Rightarrow> response \<times> store" where
  "patch_vote add postId reqbody st =
     (let updateField = (if get reqbody ''voteType'' = JStr ''up''
                         then inc_op add ''upvotes'' 1 else inc_op add ''downvotes'' 1)
      in case ObjectId postId of
           Inl e \<Rightarrow> (res_status 500 (err_body ''Failed to update vote''), st)
         | Inr i \<Rightarrow>
             (case updateOne (by_id i) updateField (forum st) of
                Inl e \<Rightarrow> (res_status 500 (err_body ''Failed to update vote''), st)
              | Inr (n, fs) \<Rightarrow> (res_json (JObj [(''success'', JBool True)]), st\<lparr>forum := fs\<rparr>)))"

section \<open>Handlers: reviews, newsletter\<close>

definition post_reviews :: "nat \<Rightarrow> oid \<Rightarrow> doc \<Rightarrow> store \<Rightarrow> response \<times> store" where
  "post_reviews now nid review st =
     (case insertOne nid (put ''createdAt'' (JDate now) review) (reviews st) of
        Inl e \<Rightarrow> (res_status 500 (err_body ''Failed to submit review''), st)
      | Inr (i, rs) \<Rightarrow>
          (res_json (JObj [(''success'', JBool True),
             (''message'', JStr ''Review submitted successfully'')]), st\<lparr>reviews := rs\<rparr>))"

definition get_reviews :: "store \<Rightarrow> response" where
  "get_reviews st = res_json (docs (sort_newest (reviews st)))"

text \<open>\<^verbatim>\<open>POST /newsletter/subscribe\<close>: 400 without name or email, 409 for an email
  already subscribed, else a new document of exactly three fields.\<close>

definition post_subscribe :: "nat \<Rightarrow> oid \<Rightarrow> doc \<Rightarrow> store \<Rightarrow> response \<times> store" where
  "post_subscribe now nid reqbody st =
     (let name = get reqbody ''name''; email = get reqbody ''email''
      in if \<not> truthy name \<or> \<not> truthy email then
           (res_status 400 (err_body ''Name and email are required''), st)
         else
           (case findOne (field_eq ''email'' email) (subscriber st) of
              Some existing \<Rightarrow> (res_status 409 (err_body ''You are already subscribed''), st)
            | None \<Rightarrow>
                (case insertOne nid [(''name'', name), (''email'', email), (''createdAt'', JDate now)]
                        (subscriber st) of
                   Inl e \<Rightarrow> (res_status 500 (err_body ''Failed to subscribe''), st)
                 | Inr (i, ss) \<Rightarrow>
                     (res_json (JObj [(''success'', JBool True),
                        (''message'', JStr ''Subscription successful'')]),
                      st\<lparr>subscriber := ss\<rparr>))))"

definition get_subscribers :: "store \<Rightarrow> response" where
  "get_subscribers st = res_json (docs (sort_newest (subscriber st)))"

section \<open>Handlers: bookings\<close>

text \<open>\<^verbatim>\<open>POST /payments\<close>: \<^verbatim>\<open>userEmail\<close> and \<^verbatim>\<open>trainerId\<close> are required; the stored
  document is the body with \<^verbatim>\<open>status: "success"\<close> and \<^verbatim>\<open>createdAt\<close> written over
  it.\<close>

definition post_payments :: "nat \<Rightarrow> oid \<Rightarrow> doc \<Rightarrow> store \<Rightarrow> response \<times> store" where
  "post_payments now nid payment st =
     (if \<not> truthy (get payment ''userEmail'') \<or> \<not> truthy (get payment ''trainerId'') then
        (res_status 400 (err_body ''Invalid booking data''), st)
      else
        (case insertOne nid
                (put ''createdAt'' (JDate now) (put ''status'' (JStr ''success'') payment))
                (bookings st) of
           Inl e \<Rightarrow> (res_status 500 (err_body ''Failed to save booking/payment''), st)
         | Inr (i, bs) \<Rightarrow>
             (res_status 201 (JObj [(''message'', JStr ''Payment & booking saved successfully''),
                (''id'', i)]), st\<lparr>bookings := bs\<rparr>)))"

definition get_bookings_trainer :: "string \<Rightarrow> store \<Rightarrow> response" where
  "get_bookings_trainer trainerId st =
     res_json (docs (filter (field_eq ''trainerId'' (JStr trainerId)) (bookings st)))"

text \<open>
  \<^verbatim>\<open>GET /bookings/user/:email\<close>. The successful bookings of the user, newest first;
  \<^verbatim>\<open>new ObjectId(b.trainerId)\<close> for each of them (the first one that the constructor
  refuses makes the handler answer 500; on a \<^verbatim>\<open>trainerId\<close> that is not a string the
  constructor is the driver's, the parameter \<open>drv\<close>: a number gives a generated
  identifier, most other values make it throw);
  the trainers whose \<^verbatim>\<open>_id\<close> is among these identifiers; and the join
  \<^verbatim>\<open>trainers.find((t) => t._id.toString() === booking.trainerId)\<close>.
\<close>

definition user_filter :: "string \<Rightarrow> doc \<Rightarrow> bool" where
  "user_filter email b =
     (field_eq ''userEmail'' (JStr email) b \<and> field_eq ''status'' (JStr ''success'') b)"

definition user_bookings :: "string \<Rightarrow> store \<Rightarrow> doc list" where
  "user_bookings email st = sort_newest (filter (user_filter email) (bookings st))"

definition trainer_ref :: "(json \<Rightarrow> error + oid) \<Rightarrow> doc \<Rightarrow> error + oid" where
  "trainer_ref drv b = (case get b ''trainerId'' of JStr s \<Rightarrow> ObjectId s | v \<Rightarrow> drv v)"

fun map_throw :: "('a \<Rightarrow> error + 'b) \<Rightarrow> 'a list \<Rightarrow> error + 'b list" where
  "map_throw f [] = Inr []"
| "map_throw f (x # xs) =
     (case f x of
        Inl e \<Rightarrow> Inl e
      | Inr y \<Rightarrow> (case map_throw f xs of Inl e \<Rightarrow> Inl e | Inr ys \<Rightarrow> Inr (y # ys)))"

definition id_in :: "oid list \<Rightarrow> doc \<Rightarrow> bool" where
  "id_in is d = (case get d ''_id'' of JOid i \<Rightarrow> i \<in> set is | _ \<Rightarrow> False)"

definition id_string_equals :: "json \<Rightarrow> doc \<Rightarrow> bool" where
  "id_string_equals ref t =
     (case get t ''_id'' of JOid i \<Rightarrow> JStr (toString i) = ref | _ \<Rightarrow> False)"

definition merge_booking :: "doc list \<Rightarrow> doc \<Rightarrow> doc" where
  "merge_booking ts booking =
     (let trainerInfo = List.find (id_string_equals (get booking ''trainerId'')) ts
      in put ''trainerDetails'' (case trainerInfo of None \<Rightarrow> JNull | Some t \<Rightarrow> JObj t) booking)"

definition get_bookings_user :: "(json \<Rightarrow> error + oid) \<Rightarrow> string \<Rightarrow> store \<Rightarrow> response" where
  "get_bookings_user drv email st =
     (let bs = user_bookings email st
      in if length bs = 0 then res_json (JArr [])
         else
           (case map_throw (trainer_ref drv) bs of
              Inl e \<Rightarrow> res_status 500 (err_body ''Failed to fetch booked trainers'')
            | Inr trainerIds \<Rightarrow>
                (let ts = filter (id_in trainerIds) (trainers st)
                 in res_json (docs (map (merge_booking ts) bs)))))"

section \<open>Reading a stored document\<close>

text \<open>
  A vote counter of a forum post. A post that has never been voted on need not have the
  field; \<^verbatim>\<open>$inc\<close> creates it from 0, so an absent counter reads as 0. A field that
  is not a number is not a counter.
\<close>

definition counter :: "doc \<Rightarrow> string \<Rightarrow> rat option" where
  "counter d k =
     (case map_of d k of
        None \<Rightarrow> Some 0
      | Some (JNum (Num m)) \<Rightarrow> Some m
      | Some _ \<Rightarrow> None)"

text \<open>The slot list of a trainer: the array \<^verbatim>\<open>availableSlots\<close>, empty when the field
  is absent; a field that is not an array is not a slot list.\<close>

definition slots_of :: "doc \<Rightarrow> json list option" where
  "slots_of d =
     (case map_of d ''availableSlots'' of
        None \<Rightarrow> Some []
      | Some (JArr xs) \<Rightarrow> Some xs
      | Some _ \<Rightarrow> None)"

text \<open>Voting \<open>n\<close> times in a row with the same request.\<close>

definition vote_times :: "nat \<Rightarrow> (rat \<Rightarrow> rat \<Rightarrow> error + jsnum) \<Rightarrow> string \<Rightarrow> doc \<Rightarrow> store \<Rightarrow> store" where
  "vote_times n add postId reqbody = (\<lambda>st. snd (patch_vote add postId reqbody st)) ^^ n"

section \<open>Reading a list response\<close>

text \<open>
  A document is returned by a list operation when the answer is 200 and its body is an
  array that contains the document (\<open>listed\<close>), or, for the paginated lists, an object
  whose field \<open>key\<close> is such an array (\<open>listed_in\<close>).
\<close>

definition listed :: "doc \<Rightarrow> response \<Rightarrow> bool" where
  "listed d r = (status r = 200 \<and> (case body r of JArr js \<Rightarrow> JObj d \<in> set js | _ \<Rightarrow> False))"

definition listed_in :: "string \<Rightarrow> doc \<Rightarrow> response \<Rightarrow> bool" where
  "listed_in key d r =
     (status r = 200 \<and>
      (case body r of
         JObj fs \<Rightarrow> (case get fs key of JArr js \<Rightarrow> JObj d \<in> set js | _ \<Rightarrow> False)
       | _ \<Rightarrow> False))"

text \<open>A client writes a page number in decimal.\<close>

fun dec :: "nat \<Rightarrow> string" where
  "dec n = (if n < 10 then [char_of (48 + n)] else dec (n div 10) @ [char_of (48 + n mod 10)])"

declare dec.simps [simp del]

definition empty_store :: store where
  "empty_store = \<lparr>users = [], testimonials = [], classes = [], trainers = [], forum = [],
     subscriber = [], reviews = [], bookings = []\<rparr>"

section \<open>Sample data\<close>

text \<open>A few concrete identifiers, documents and stores, on which the theorems below are
  instantiated.\<close>

definition hexa :: string where
  "hexa = ''aaaaaaaaaaaaaaaaaaaaaaaa''"

definition hexb :: string where
  "hexb = ''bbbbbbbbbbbbbbbbbbbbbbbb''"

definition sample_application :: doc where
  "sample_application =
     [(''_id'', JOid (mk_oid hexb)), (''name'', JStr ''Ann''), (''email'', JStr ''ann@example.com''),
      (''age'', JNum (Num 30)), (''image'', JStr ''ann.png''), (''experience'', JNum (Num 4)),
      (''details'', JStr ''Yoga''), (''expertise'', JArr [JStr ''yoga'']),
      (''availableDays'', JArr [JStr ''Mon'']), (''availableSlots'', JArr []),
      (''socials'', JObj [(''facebook'', JStr ''ann'')]), (''status'', JStr ''pending''),
      (''createdAt'', JDate 5)]"

text \<open>A request body for \<^verbatim>\<open>POST /trainers/apply\<close> that brings its own status and no
  \<^verbatim>\<open>socials\<close>. Its \<^verbatim>\<open>age\<close> is a number and it has no \<^verbatim>\<open>experience\<close>, so
  \<^verbatim>\<open>Number\<close> never consults the runtime's conversion of strings on it.\<close>

definition eve_payload :: doc where
  "eve_payload =
     [(''name'', JStr ''Eve''), (''email'', JStr ''eve@example.com''), (''age'', JNum (Num 31)),
      (''expertise'', JStr ''boxing''), (''status'', JStr ''approved'')]"

definition sample_store :: store where
  "sample_store = empty_store\<lparr>trainers := [sample_application]\<rparr>"

definition hexc :: string where
  "hexc = ''cccccccccccccccccccccccc''"

definition sample_post :: doc where
  "sample_post =
     [(''_id'', JOid (mk_oid hexc)), (''title'', JStr ''Hello''),
      (''upvotes'', JNum (Num 2)), (''downvotes'', JNum (Num 1))]"

definition forum_store :: store where
  "forum_store = empty_store\<lparr>forum := [sample_post]\<rparr>"

text \<open>An up-vote, and a post whose \<^verbatim>\<open>upvotes\<close> is a text, as \<^verbatim>\<open>POST /forum\<close> stores
  it.\<close>

definition up_vote :: doc where
  "up_vote = [(''voteType'', JStr ''up'')]"

definition text_votes_body :: doc where
  "text_votes_body = [(''title'', JStr ''Hi''), (''upvotes'', JStr ''3'')]"

definition text_votes_store :: store where
  "text_votes_store =
     empty_store\<lparr>forum := [put ''_id'' (JOid (mk_oid hexc)) text_votes_body]\<rparr>"

text \<open>Seven classes, created at times 1 to 7.\<close>

definition class_doc :: "nat \<Rightarrow> doc" where
  "class_doc n = [(''_id'', JNum (Num (of_nat n))), (''name'', JStr ''Pilates''), (''createdAt'', JDate n)]"

definition classes_store :: store where
  "classes_store = empty_store\<lparr>classes :=
     [class_doc 1, class_doc 2, class_doc 3, class_doc 4, class_doc 5, class_doc 6, class_doc 7]\<rparr>"

text \<open>
  A regular-expression engine for the examples. It accepts the patterns made of letters
  only, where it agrees with the store: with option \<^verbatim>\<open>i\<close> such a pattern matches the
  strings that contain it, letters compared without their case. It rejects every other
  pattern; the store rejects some of them too, \<^verbatim>\<open>(\<close> for one.
\<close>

definition fold_case :: "char \<Rightarrow> nat" where
  "fold_case c = (let n = of_char c :: nat in if 65 \<le> n \<and> n \<le> 90 then n + 32 else n)"

definition is_letter :: "char \<Rightarrow> bool" where
  "is_letter c = (let n = of_char c :: nat in 65 \<le> n \<and> n \<le> 90 \<or> 97 \<le> n \<and> n \<le> 122)"

fun starts_ci :: "string \<Rightarrow> string \<Rightarrow> bool" where
  "starts_ci [] n = True"
| "starts_ci (p # ps) [] = False"
| "starts_ci (p # ps) (c # cs) = (fold_case p = fold_case c \<and> starts_ci ps cs)"

fun contains_ci :: "string \<Rightarrow> string \<Rightarrow> bool" where
  "contains_ci p [] = (p = [])"
| "contains_ci p (c # cs) = (starts_ci p (c # cs) \<or> contains_ci p cs)"

definition letters_rx :: "string \<Rightarrow> (string \<Rightarrow> bool) option" where
  "letters_rx pat = (if list_all is_letter pat then Some (contains_ci pat) else None)"

text \<open>Nine classes in the order of their insertion: seven named Pilates, one of them
  with the name in an array, and two named Yoga.\<close>

definition yoga_doc :: "nat \<Rightarrow> doc" where
  "yoga_doc n = [(''_id'', JNum (Num (of_nat n))), (''name'', JStr ''Yoga''), (''createdAt'', JDate n)]"

definition listed_names_doc :: "nat \<Rightarrow> doc" where
  "listed_names_doc n =
     [(''_id'', JNum (Num (of_nat n))), (''name'', JArr [JNum (Num 1), JStr ''Hot PILATES'']),
      (''createdAt'', JDate n)]"

definition mixed_store :: store where
  "mixed_store = empty_store\<lparr>classes :=
     [yoga_doc 8, class_doc 1, class_doc 2, class_doc 3, class_doc 4, yoga_doc 9, class_doc 5,
      class_doc 6, listed_names_doc 7]\<rparr>"

text \<open>A registered user without a role.\<close>

definition bob :: doc where
  "bob = [(''_id'', JOid (mk_oid hexb)), (''name'', JStr ''Bob''), (''email'', JStr ''bob@example.com'')]"

definition users_store :: store where
  "users_store = empty_store\<lparr>users := [bob]\<rparr>"

text \<open>A payment whose trainer reference is not an identifier, and a stored booking like
  it; two bookings of one user, one for the sample trainer and one for a trainer that
  does not exist; and a body that has every field any create handler asks for.\<close>

definition bad_payment :: doc where
  "bad_payment = [(''userEmail'', JStr ''uma@example.com''), (''trainerId'', JStr ''abc'')]"

definition good_booking :: doc where
  "good_booking =
     [(''_id'', JOid (mk_oid hexc)), (''userEmail'', JStr ''uma@example.com''),
      (''trainerId'', JStr hexb), (''status'', JStr ''success''), (''createdAt'', JDate 9)]"

definition dangling_booking :: doc where
  "dangling_booking =
     [(''_id'', JOid (mk_oid hexa)), (''userEmail'', JStr ''uma@example.com''),
      (''trainerId'', JStr hexc), (''status'', JStr ''success''), (''createdAt'', JDate 3)]"

definition bad_booking :: doc where
  "bad_booking =
     [(''_id'', JOid (mk_oid hexa)), (''userEmail'', JStr ''uma@example.com''),
      (''trainerId'', JStr ''abc''), (''status'', JStr ''success''), (''createdAt'', JDate 7)]"

definition bookings_store :: store where
  "bookings_store = sample_store\<lparr>bookings := [dangling_booking, good_booking]\<rparr>"

definition bad_ref_store :: store where
  "bad_ref_store = sample_store\<lparr>bookings := [bad_booking, good_booking]\<rparr>"

definition full_body :: doc where
  "full_body =
     [(''name'', JStr ''Eve''), (''email'', JStr ''eve@example.com''), (''review'', JStr ''Great''),
      (''image'', JStr ''eve.png''), (''details'', JStr ''Spinning''),
      (''userEmail'', JStr ''eve@example.com''), (''trainerId'', JStr hexb)]"

section \<open>Theorems\<close>

subsection \<open>Object identifiers\<close>

lemma lower_hex_id: "is_lower_hex c \<Longrightarrow> lower_hex c = c \<and> is_hex c"
  by (auto simp add: is_lower_hex_def lower_hex_def is_hex_def)

lemma is_hex_lower: "is_hex c \<Longrightarrow> is_lower_hex (lower_hex c)"
  by (auto simp add: is_lower_hex_def lower_hex_def is_hex_def)

lemma canonical_toString: "canonical_hex (toString i)"
  using toString [of i] by simp

lemma ObjectId_toString: "ObjectId (toString i) = Inr i"
proof -
  have c: "length (toString i) = 24" "list_all is_lower_hex (toString i)"
    using canonical_toString [of i] by (simp_all add: canonical_hex_def)
  have "list_all is_hex (toString i)"
    using c(2) by (simp add: list_all_iff lower_hex_id)
  moreover have "map lower_hex (toString i) = toString i"
    using c(2) by (simp add: list_all_iff lower_hex_id map_idI)
  ultimately show ?thesis
    by (simp add: ObjectId_def c(1) toString_inverse)
qed

lemma ObjectId_Inr: "ObjectId s = Inr i \<Longrightarrow> toString i = map lower_hex s"
proof -
  assume a: "ObjectId s = Inr i"
  then have v: "length s = 24" "list_all is_hex s" and i: "i = mk_oid (map lower_hex s)"
    by (auto simp add: ObjectId_def split: if_splits)
  have "canonical_hex (map lower_hex s)"
    using v by (simp add: canonical_hex_def list_all_iff is_hex_lower)
  then show ?thesis by (simp add: i mk_oid_inverse)
qed

lemma canonical_hexa: "canonical_hex hexa" "canonical_hex hexb"
  by (simp_all add: canonical_hex_def is_lower_hex_def hexa_def hexb_def)

lemma ObjectId_hexa: "ObjectId hexa = Inr (mk_oid hexa)" "ObjectId hexb = Inr (mk_oid hexb)"
  by (simp_all add: ObjectId_def is_hex_def lower_hex_def hexa_def hexb_def)

lemma oid_a_neq_b: "mk_oid hexa \<noteq> mk_oid hexb" 
  by (simp add: mk_oid_inject canonical_hexa) (simp add: hexa_def hexb_def)

subsection \<open>Documents and store operations\<close>

lemma get_put: "get (put k v d) k' = (if k' = k then v else get d k')"
  by (simp add: get_def put_def update_conv')

lemma map_of_put: "map_of (put k v d) = (map_of d)(k \<mapsto> v)"
  by (simp add: put_def update_conv')

lemma by_id_put: "k \<noteq> ''_id'' \<Longrightarrow> by_id i (put k v d) = by_id i d"
  by (simp add: by_id_def get_put)

lemma findOne_None_iff: "findOne p col = None \<longleftrightarrow> (\<forall>d \<in> set col. \<not> p d)"
  by (auto simp add: findOne_def find_None_iff)

lemma findOne_split:
  "findOne p col = Some d \<Longrightarrow> \<exists>xs ys. col = xs @ d # ys \<and> (\<forall>x \<in> set xs. \<not> p x) \<and> p d"
proof (induction col)
  case Nil
  then show ?case by (simp add: findOne_def)
next
  case (Cons c col)
  show ?case
  proof (cases "p c")
    case True
    with Cons.prems have "c = d" by (simp add: findOne_def)
    with True have "c # col = [] @ d # col \<and> (\<forall>x \<in> set []. \<not> p x) \<and> p d" by simp
    then show ?thesis by blast
  next
    case False
    with Cons.prems have "findOne p col = Some d" by (simp add: findOne_def)
    from Cons.IH [OF this] obtain xs ys where
      "col = xs @ d # ys" "\<forall>x \<in> set xs. \<not> p x" "p d" by blast
    with False have "c # col = (c # xs) @ d # ys \<and> (\<forall>x \<in> set (c # xs). \<not> p x) \<and> p d"
      by simp
    then show ?thesis by blast
  qed
qed

lemma findOne_first:
  "\<forall>x \<in> set xs. \<not> p x \<Longrightarrow> p d \<Longrightarrow> findOne p (xs @ d # ys) = Some d"
  by (induction xs) (simp_all add: findOne_def)

lemma updateOne_no_match: "\<forall>d \<in> set col. \<not> p d \<Longrightarrow> updateOne p u col = Inr (0, col)"
  by (induction col) simp_all

lemma updateOne_first:
  "\<forall>x \<in> set xs. \<not> p x \<Longrightarrow> p d \<Longrightarrow> u d = Inr d' \<Longrightarrow>
     updateOne p u (xs @ d # ys) = Inr (if d' = d then 0 else 1, xs @ d' # ys)"
  by (induction xs) simp_all

subsection \<open>Trainer lookup by email\<close>

text \<open>
  The route \<^verbatim>\<open>/trainers/email/:email\<close>: when no trainer document has the email, the
  answer is 404.
\<close>

lemma trainers_email_not_found:
  "\<forall>t \<in> set (trainers st). get t ''email'' \<noteq> JStr email \<Longrightarrow>
     status (get_trainers_email email st) = 404"
  by (simp add: get_trainers_email_def findOne_None_iff [THEN iffD2] field_eq_def res_status_def)

text \<open>
  C9, at the failing input. On a store without trainers,
  \<^verbatim>\<open>GET /trainers/by-email/nobody@example.com\<close> answers 200 with the body
  \<^verbatim>\<open>null\<close>, where the claim requires the 404 that the sibling route gives.
\<close>

theorem by_email_missing_trainer_is_200:
  "get_trainers_by_email ''nobody@example.com'' empty_store = \<lparr>status = 200, body = JNull\<rparr>"
  by (simp add: get_trainers_by_email_def findOne_def empty_store_def res_json_def)

subsection \<open>Rejecting an application\<close>

text \<open>
  C3, as stated, fails: the path parameter \<^verbatim>\<open>abc\<close> matches no document, yet the
  answer is 500, not 404, because \<^verbatim>\<open>new ObjectId("abc")\<close> throws inside the
  \<^verbatim>\<open>try\<close> block.
\<close>

theorem reject_malformed_id_is_500:
  "trainers empty_store = [] \<and> status (fst (patch_reject ''abc'' [] empty_store)) = 500"
  by (simp add: patch_reject_def ObjectId_def res_status_def empty_store_def)

text \<open>
  C3, amended. For every identifier of 24 hexadecimal digits that matches no document of
  the trainers collection, Reject answers 404 and leaves the whole store unchanged; for
  a path parameter that the \<^verbatim>\<open>ObjectId\<close> constructor refuses, it answers 500, and the
  store is unchanged as well.
\<close>

theorem reject_unknown_id:
  "(ObjectId id_param = Inr i \<and> (\<forall>d \<in> set (trainers st). get d ''_id'' \<noteq> JOid i) \<longrightarrow>
      status (fst (patch_reject id_param reqbody st)) = 404 \<and> snd (patch_reject id_param reqbody st) = st)
   \<and> (ObjectId id_param = Inl e \<longrightarrow>
      status (fst (patch_reject id_param reqbody st)) = 500 \<and> snd (patch_reject id_param reqbody st) = st)"
  by (simp add: patch_reject_def updateOne_no_match by_id_def res_status_def)

text \<open>The amended C3 on the sample store, for the unknown identifier \<open>hexa\<close> and for
  the malformed \<^verbatim>\<open>abc\<close>.\<close>

theorem reject_unknown_id_witness:
  "ObjectId hexa = Inr (mk_oid hexa)
   \<and> ids (trainers sample_store) = [JOid (mk_oid hexb)]
   \<and> status (fst (patch_reject hexa [] sample_store)) = 404
   \<and> snd (patch_reject hexa [] sample_store) = sample_store
   \<and> ObjectId ''abc'' = Inl BSONError
   \<and> status (fst (patch_reject ''abc'' [] sample_store)) = 500
   \<and> snd (patch_reject ''abc'' [] sample_store) = sample_store"
proof -
  have h1: "ObjectId hexa = Inr (mk_oid hexa)" by (rule ObjectId_hexa)
  have h2: "\<forall>d \<in> set (trainers sample_store). get d ''_id'' \<noteq> JOid (mk_oid hexa)"
    using oid_a_neq_b by (simp add: sample_store_def sample_application_def get_def)
  have h3: "ObjectId ''abc'' = Inl BSONError" by (simp add: ObjectId_def)
  show ?thesis
    using reject_unknown_id [where id_param = hexa and i = "mk_oid hexa" and st = sample_store and reqbody = "[]"]
      reject_unknown_id [where id_param = "''abc''" and e = BSONError and st = sample_store and reqbody = "[]"] h1 h2 h3
    by (simp add: ids_def sample_store_def sample_application_def get_def)
qed

subsection \<open>The two routes that add a slot\<close>

lemma push_slots:
  "slots_of t = Some sl \<Longrightarrow>
     push_op ''availableSlots'' v t = Inr (put ''availableSlots'' (JArr (sl @ [v])) t)"
  by (auto simp add: slots_of_def push_op_def split: option.splits json.splits)

lemma push_changes:
  "slots_of t = Some sl \<Longrightarrow> put ''availableSlots'' (JArr (sl @ [v])) t \<noteq> t"
proof
  assume s: "slots_of t = Some sl" and e: "put ''availableSlots'' (JArr (sl @ [v])) t = t"
  have "map_of (put ''availableSlots'' (JArr (sl @ [v])) t) ''availableSlots'' = Some (JArr (sl @ [v]))"
    by (simp add: map_of_put)
  with e have "map_of t ''availableSlots'' = Some (JArr (sl @ [v]))" by simp
  with s show False by (simp add: slots_of_def)
qed

text \<open>
  C10, as stated, fails in one point: \<^verbatim>\<open>POST /trainers/:id/slots\<close> does not answer
  with success for every id. For \<^verbatim>\<open>abc\<close> the constructor throws and the answer is 500.
\<close>

theorem post_slots_malformed_id_is_500:
  "status (fst (post_slots ''abc'' [(''day'', JStr ''Mon'')] empty_store)) = 500"
  by (simp add: post_slots_def ObjectId_def res_status_def)

lemma slot_routes_well_formed:
  "(ObjectId id_param = Inr i \<and> (\<forall>d \<in> set (trainers st). get d ''_id'' \<noteq> JOid i) \<longrightarrow>
      status (fst (patch_add_slot id_param newSlot st)) = 404
      \<and> status (fst (post_slots id_param newSlot st)) = 200
      \<and> snd (patch_add_slot id_param newSlot st) = st
      \<and> snd (post_slots id_param newSlot st) = st)
   \<and> (ObjectId id_param = Inr i \<and> findOne (by_id i) (trainers st) = Some t
        \<and> slots_of t = Some sl \<longrightarrow>
      status (fst (patch_add_slot id_param newSlot st)) = 200
      \<and> status (fst (post_slots id_param newSlot st)) = 200
      \<and> snd (patch_add_slot id_param newSlot st) = snd (post_slots id_param newSlot st)
      \<and> (\<exists>xs ys. trainers st = xs @ t # ys \<and> (\<forall>x \<in> set xs. \<not> by_id i x)
            \<and> snd (post_slots id_param newSlot st) =
                st\<lparr>trainers := xs @ put ''availableSlots'' (JArr (sl @ [JObj newSlot])) t # ys\<rparr>))"
proof (intro conjI impI)
  assume a: "ObjectId id_param = Inr i \<and> (\<forall>d \<in> set (trainers st). get d ''_id'' \<noteq> JOid i)"
  then have u: "updateOne (by_id i) (push_op ''availableSlots'' (JObj newSlot)) (trainers st)
      = Inr (0, trainers st)"
    by (simp add: updateOne_no_match by_id_def)
  from a u show "status (fst (patch_add_slot id_param newSlot st)) = 404"
    by (simp add: patch_add_slot_def res_status_def)
  from a u show "status (fst (post_slots id_param newSlot st)) = 200"
    by (simp add: post_slots_def res_json_def)
  from a u show "snd (patch_add_slot id_param newSlot st) = st"
    by (simp add: patch_add_slot_def)
  from a u show "snd (post_slots id_param newSlot st) = st"
    by (simp add: post_slots_def)
next
  assume a: "ObjectId id_param = Inr i \<and> findOne (by_id i) (trainers st) = Some t
        \<and> slots_of t = Some sl"
  let ?t' = "put ''availableSlots'' (JArr (sl @ [JObj newSlot])) t"
  from a obtain xs ys where s: "trainers st = xs @ t # ys" "\<forall>x \<in> set xs. \<not> by_id i x" "by_id i t"
    using findOne_split by blast
  from a have p: "push_op ''availableSlots'' (JObj newSlot) t = Inr ?t'"
    by (simp add: push_slots)
  from a have n: "?t' \<noteq> t" by (simp add: push_changes)
  have u: "updateOne (by_id i) (push_op ''availableSlots'' (JObj newSlot)) (trainers st)
      = Inr (1, xs @ ?t' # ys)"
    using updateOne_first [where p = "by_id i" and u = "push_op ''availableSlots'' (JObj newSlot)"
        and xs = xs and d = t and d' = ?t' and ys = ys] s p n by simp
  from a u show "status (fst (patch_add_slot id_param newSlot st)) = 200"
    by (simp add: patch_add_slot_def res_json_def)
  from a u show "status (fst (post_slots id_param newSlot st)) = 200"
    by (simp add: post_slots_def res_json_def)
  from a u show "snd (patch_add_slot id_param newSlot st) = snd (post_slots id_param newSlot st)"
    by (simp add: patch_add_slot_def post_slots_def)
  from a u have "snd (post_slots id_param newSlot st) = st\<lparr>trainers := xs @ ?t' # ys\<rparr>"
    by (simp add: post_slots_def)
  with s show "\<exists>xs ys. trainers st = xs @ t # ys \<and> (\<forall>x \<in> set xs. \<not> by_id i x)
            \<and> snd (post_slots id_param newSlot st) = st\<lparr>trainers := xs @ ?t' # ys\<rparr>"
    by blast
qed

lemma slot_routes_malformed:
  "ObjectId id_param = Inl e \<longrightarrow>
      status (fst (patch_add_slot id_param newSlot st)) = 500
      \<and> status (fst (post_slots id_param newSlot st)) = 500
      \<and> snd (patch_add_slot id_param newSlot st) = st
      \<and> snd (post_slots id_param newSlot st) = st"
  by (simp add: patch_add_slot_def post_slots_def res_status_def)

text \<open>
  C10, amended. For an identifier of 24 hexadecimal digits that matches no trainer,
  \<^verbatim>\<open>PATCH /trainers/:id/add-slot\<close> answers 404 and \<^verbatim>\<open>POST /trainers/:id/slots\<close>
  answers 200, and neither changes the store. When the identifier is that of a trainer
  whose \<^verbatim>\<open>availableSlots\<close> is a list (or absent), both answer 200 and both leave the
  same store: the one in which the request body has been appended to that trainer's
  \<^verbatim>\<open>availableSlots\<close> and nothing else has changed. For a path parameter that the
  \<^verbatim>\<open>ObjectId\<close> constructor refuses, both answer 500 and neither changes the store.
\<close>

theorem add_slot_routes:
  "(ObjectId id_param = Inr i \<and> (\<forall>d \<in> set (trainers st). get d ''_id'' \<noteq> JOid i) \<longrightarrow>
      status (fst (patch_add_slot id_param newSlot st)) = 404
      \<and> status (fst (post_slots id_param newSlot st)) = 200
      \<and> snd (patch_add_slot id_param newSlot st) = st
      \<and> snd (post_slots id_param newSlot st) = st)
   \<and> (ObjectId id_param = Inr i \<and> findOne (by_id i) (trainers st) = Some t
        \<and> slots_of t = Some sl \<longrightarrow>
      status (fst (patch_add_slot id_param newSlot st)) = 200
      \<and> status (fst (post_slots id_param newSlot st)) = 200
      \<and> snd (patch_add_slot id_param newSlot st) = snd (post_slots id_param newSlot st)
      \<and> (\<exists>xs ys. trainers st = xs @ t # ys \<and> (\<forall>x \<in> set xs. \<not> by_id i x)
            \<and> snd (post_slots id_param newSlot st) =
                st\<lparr>trainers := xs @ put ''availableSlots'' (JArr (sl @ [JObj newSlot])) t # ys\<rparr>))
   \<and> (ObjectId id_param = Inl e \<longrightarrow>
      status (fst (patch_add_slot id_param newSlot st)) = 500
      \<and> status (fst (post_slots id_param newSlot st)) = 500
      \<and> snd (patch_add_slot id_param newSlot st) = st
      \<and> snd (post_slots id_param newSlot st) = st)"
proof -
  note w = slot_routes_well_formed [of id_param i st newSlot t sl]
  show ?thesis
    by (rule conjI [OF conjunct1 [OF w] conjI [OF conjunct2 [OF w] slot_routes_malformed]])
qed

lemma slots_sample: "slots_of sample_application = Some []"
  by (simp add: slots_of_def sample_application_def)

lemma find_sample: "findOne (by_id (mk_oid hexb)) (trainers sample_store) = Some sample_application"
  by (simp add: findOne_def by_id_def sample_store_def sample_application_def get_def)

text \<open>The amended C10 on the sample store: \<open>hexa\<close> matches no trainer, \<open>hexb\<close> is the
  identifier of the sample application, \<^verbatim>\<open>abc\<close> is no identifier.\<close>

theorem add_slot_routes_witness:
  "status (fst (patch_add_slot hexa [] sample_store)) = 404
   \<and> status (fst (post_slots hexa [] sample_store)) = 200
   \<and> snd (post_slots hexa [] sample_store) = sample_store
   \<and> status (fst (patch_add_slot hexb [] sample_store)) = 200
   \<and> status (fst (post_slots hexb [] sample_store)) = 200
   \<and> snd (patch_add_slot hexb [] sample_store) = snd (post_slots hexb [] sample_store)
   \<and> status (fst (patch_add_slot ''abc'' [] sample_store)) = 500
   \<and> status (fst (post_slots ''abc'' [] sample_store)) = 500"
proof -
  have h2: "\<forall>d \<in> set (trainers sample_store). get d ''_id'' \<noteq> JOid (mk_oid hexa)"
    using oid_a_neq_b by (simp add: sample_store_def sample_application_def get_def)
  have h3: "ObjectId ''abc'' = Inl BSONError" by (simp add: ObjectId_def)
  show ?thesis
    using add_slot_routes [where id_param = hexa and i = "mk_oid hexa" and st = sample_store and newSlot = "[]"]
      add_slot_routes [where id_param = hexb and i = "mk_oid hexb" and st = sample_store and newSlot = "[]"
        and t = sample_application and sl = "[]"]
      add_slot_routes [where id_param = "''abc''" and e = BSONError and st = sample_store and newSlot = "[]"]
      ObjectId_hexa h2 h3 slots_sample find_sample
    by simp
qed

subsection \<open>Voting on a forum post\<close>

lemma safe_int_of_int: "safe_int (of_int z) \<longleftrightarrow> \<bar>z\<bar> \<le> 9007199254740992"
proof -
  have "\<bar>of_int z :: rat\<bar> \<le> 9007199254740992 \<longleftrightarrow> \<bar>z\<bar> \<le> 9007199254740992"
    by (simp only: of_int_abs [symmetric] of_int_le_numeral_iff)
  then show ?thesis by (simp add: safe_int_def)
qed

lemma inc_counter:
  assumes "counter post k = Some (of_int c)" and "- 9007199254740992 \<le> c" and "c < 9007199254740992"
  shows "inc_op add k 1 post = Inr (put k (JNum (Num (of_int (c + 1)))) post)"
proof (cases "map_of post k")
  case None
  with assms(1) have "c = 0" by (simp add: counter_def)
  with None show ?thesis by (simp add: inc_op_def)
next
  case (Some v)
  with assms(1) have v: "v = JNum (Num (of_int c))"
    by (auto simp add: counter_def split: json.splits jsnum.splits)
  have s: "safe_int (of_int c)" "safe_int 1" "safe_int (of_int c + 1)"
    using assms(2,3) safe_int_of_int [of c] safe_int_of_int [of 1] safe_int_of_int [of "c + 1"]
    by simp_all
  show ?thesis by (simp add: inc_op_def Some v s)
qed

lemma inc_not_number:
  "map_of post k = Some v \<Longrightarrow> \<not> is_num v \<Longrightarrow> inc_op add k n post = Inl WriteError"
  by (cases v) (simp_all add: inc_op_def)

lemma counter_put: "counter (put k (JNum (Num m)) d) k = Some m"
  by (simp add: counter_def map_of_put)

lemma updateOne_first_fails:
  "\<forall>x \<in> set xs. \<not> p x \<Longrightarrow> p d \<Longrightarrow> u d = Inl e \<Longrightarrow> updateOne p u (xs @ d # ys) = Inl e"
  by (induction xs) simp_all

lemma vote_up_step:
  assumes "ObjectId postId = Inr i" and "forum st = xs @ post # ys"
    and "\<forall>x \<in> set xs. \<not> by_id i x" and "by_id i post"
    and "counter post ''upvotes'' = Some (of_int c)"
    and "- 9007199254740992 \<le> c" and "c < 9007199254740992"
    and "get reqbody ''voteType'' = JStr ''up''"
  shows "patch_vote add postId reqbody st =
     (res_json (JObj [(''success'', JBool True)]),
      st\<lparr>forum := xs @ put ''upvotes'' (JNum (Num (of_int (c + 1)))) post # ys\<rparr>)"
proof -
  let ?p' = "put ''upvotes'' (JNum (Num (of_int (c + 1)))) post"
  have "updateOne (by_id i) (inc_op add ''upvotes'' 1) (xs @ post # ys)
      = Inr (if ?p' = post then 0 else 1, xs @ ?p' # ys)"
    using updateOne_first [where p = "by_id i" and u = "inc_op add ''upvotes'' 1" and xs = xs
        and d = post and d' = ?p' and ys = ys] assms(3,4) inc_counter [OF assms(5,6,7), of add]
    by simp
  then show ?thesis
    using assms(1,2,8) by (simp add: patch_vote_def)
qed

lemma vote_times_up:
  assumes "ObjectId postId = Inr i" and "get reqbody ''voteType'' = JStr ''up''"
  shows "findOne (by_id i) (forum st) = Some post \<Longrightarrow>
     counter post ''upvotes'' = Some (of_int c) \<Longrightarrow> - 9007199254740992 \<le> c \<Longrightarrow>
     c + int n \<le> 9007199254740992 \<Longrightarrow>
     \<exists>post'. findOne (by_id i) (forum (vote_times n add postId reqbody st)) = Some post'
       \<and> counter post' ''upvotes'' = Some (of_int (c + int n))
       \<and> (\<forall>k. k \<noteq> ''upvotes'' \<longrightarrow> map_of post' k = map_of post k)"
proof (induction n arbitrary: st post c)
  case 0
  then show ?case by (simp add: vote_times_def)
next
  case (Suc n)
  let ?p1 = "put ''upvotes'' (JNum (Num (of_int (c + 1)))) post"
  from Suc.prems(1) obtain xs ys where
    s: "forum st = xs @ post # ys" "\<forall>x \<in> set xs. \<not> by_id i x" "by_id i post"
    using findOne_split by blast
  from Suc.prems(4) have lt: "c < 9007199254740992" by simp
  have step: "snd (patch_vote add postId reqbody st) = st\<lparr>forum := xs @ ?p1 # ys\<rparr>"
    using vote_up_step [OF assms(1) s Suc.prems(2) Suc.prems(3) lt assms(2), of add] by simp
  have f1: "findOne (by_id i) (forum (st\<lparr>forum := xs @ ?p1 # ys\<rparr>)) = Some ?p1"
    using s by (simp add: findOne_first by_id_put)
  have c1: "counter ?p1 ''upvotes'' = Some (of_int (c + 1))" by (rule counter_put)
  have b1: "- 9007199254740992 \<le> c + 1" using Suc.prems(3) by simp
  have b2: "c + 1 + int n \<le> 9007199254740992" using Suc.prems(4) by simp
  from Suc.IH [OF f1 c1 b1 b2] obtain post' where
    p: "findOne (by_id i) (forum (vote_times n add postId reqbody (st\<lparr>forum := xs @ ?p1 # ys\<rparr>))) = Some post'"
      "counter post' ''upvotes'' = Some (of_int (c + 1 + int n))"
      "\<forall>k. k \<noteq> ''upvotes'' \<longrightarrow> map_of post' k = map_of ?p1 k"
    by blast
  have v: "vote_times (Suc n) add postId reqbody st
      = vote_times n add postId reqbody (st\<lparr>forum := xs @ ?p1 # ys\<rparr>)"
    by (simp add: vote_times_def funpow_Suc_right step del: funpow.simps)
  have e: "c + 1 + int n = c + int (Suc n)" by simp
  have "\<forall>k. k \<noteq> ''upvotes'' \<longrightarrow> map_of post' k = map_of post k"
    using p(3) by (simp add: map_of_put)
  with p(1,2) show ?case unfolding v e by blast
qed

lemma vote_counted:
  "ObjectId postId = Inr i \<and> findOne (by_id i) (forum st) = Some post
     \<and> counter post ''upvotes'' = Some (of_int c) \<and> - 9007199254740992 \<le> c
     \<and> get reqbody ''voteType'' = JStr ''up'' \<longrightarrow>
   (c < 9007199254740992 \<longrightarrow>
      status (fst (patch_vote add postId reqbody st)) = 200
      \<and> (\<exists>xs ys. forum st = xs @ post # ys \<and> (\<forall>x \<in> set xs. \<not> by_id i x)
           \<and> snd (patch_vote add postId reqbody st) =
               st\<lparr>forum := xs @ put ''upvotes'' (JNum (Num (of_int (c + 1)))) post # ys\<rparr>)
      \<and> counter (put ''upvotes'' (JNum (Num (of_int (c + 1)))) post) ''downvotes''
           = counter post ''downvotes'')
   \<and> (\<forall>n. c + int n \<le> 9007199254740992 \<longrightarrow>
        (\<exists>post'. findOne (by_id i) (forum (vote_times n add postId reqbody st)) = Some post'
           \<and> counter post' ''upvotes'' = Some (of_int (c + int n))
           \<and> (\<forall>k. k \<noteq> ''upvotes'' \<longrightarrow> map_of post' k = map_of post k)))"
proof (intro impI)
  assume a: "ObjectId postId = Inr i \<and> findOne (by_id i) (forum st) = Some post
     \<and> counter post ''upvotes'' = Some (of_int c) \<and> - 9007199254740992 \<le> c
     \<and> get reqbody ''voteType'' = JStr ''up''"
  then obtain xs ys where
    s: "forum st = xs @ post # ys" "\<forall>x \<in> set xs. \<not> by_id i x" "by_id i post"
    using findOne_split by blast
  have one: "c < 9007199254740992 \<longrightarrow>
      status (fst (patch_vote add postId reqbody st)) = 200
      \<and> (\<exists>xs ys. forum st = xs @ post # ys \<and> (\<forall>x \<in> set xs. \<not> by_id i x)
           \<and> snd (patch_vote add postId reqbody st) =
               st\<lparr>forum := xs @ put ''upvotes'' (JNum (Num (of_int (c + 1)))) post # ys\<rparr>)
      \<and> counter (put ''upvotes'' (JNum (Num (of_int (c + 1)))) post) ''downvotes''
           = counter post ''downvotes''"
  proof
    assume lt: "c < 9007199254740992"
    from a have h: "ObjectId postId = Inr i" "counter post ''upvotes'' = Some (of_int c)"
      "- 9007199254740992 \<le> c" "get reqbody ''voteType'' = JStr ''up''" by simp_all
    note step = vote_up_step [OF h(1) s h(2) h(3) lt h(4), of add]
    have 1: "status (fst (patch_vote add postId reqbody st)) = 200"
      by (simp add: step res_json_def)
    have 2: "\<exists>xs ys. forum st = xs @ post # ys \<and> (\<forall>x \<in> set xs. \<not> by_id i x)
           \<and> snd (patch_vote add postId reqbody st) =
               st\<lparr>forum := xs @ put ''upvotes'' (JNum (Num (of_int (c + 1)))) post # ys\<rparr>"
      using s step by (intro exI [of _ xs] exI [of _ ys]) simp
    have 3: "counter (put ''upvotes'' (JNum (Num (of_int (c + 1)))) post) ''downvotes''
           = counter post ''downvotes''"
      by (simp add: counter_def map_of_put)
    from 1 2 3 show "status (fst (patch_vote add postId reqbody st)) = 200
      \<and> (\<exists>xs ys. forum st = xs @ post # ys \<and> (\<forall>x \<in> set xs. \<not> by_id i x)
           \<and> snd (patch_vote add postId reqbody st) =
               st\<lparr>forum := xs @ put ''upvotes'' (JNum (Num (of_int (c + 1)))) post # ys\<rparr>)
      \<and> counter (put ''upvotes'' (JNum (Num (of_int (c + 1)))) post) ''downvotes''
           = counter post ''downvotes''" by blast
  qed
  have many: "\<forall>n. c + int n \<le> 9007199254740992 \<longrightarrow>
        (\<exists>post'. findOne (by_id i) (forum (vote_times n add postId reqbody st)) = Some post'
           \<and> counter post' ''upvotes'' = Some (of_int (c + int n))
           \<and> (\<forall>k. k \<noteq> ''upvotes'' \<longrightarrow> map_of post' k = map_of post k))"
  proof (intro allI impI)
    fix n assume n: "c + int n \<le> 9007199254740992"
    from a have h: "ObjectId postId = Inr i" "get reqbody ''voteType'' = JStr ''up''"
      "findOne (by_id i) (forum st) = Some post" "counter post ''upvotes'' = Some (of_int c)"
      "- 9007199254740992 \<le> c" by simp_all
    from vote_times_up [OF h(1) h(2) h(3) h(4) h(5) n, of add]
    show "\<exists>post'. findOne (by_id i) (forum (vote_times n add postId reqbody st)) = Some post'
           \<and> counter post' ''upvotes'' = Some (of_int (c + int n))
           \<and> (\<forall>k. k \<noteq> ''upvotes'' \<longrightarrow> map_of post' k = map_of post k)" .
  qed
  from one many show "(c < 9007199254740992 \<longrightarrow>
      status (fst (patch_vote add postId reqbody st)) = 200
      \<and> (\<exists>xs ys. forum st = xs @ post # ys \<and> (\<forall>x \<in> set xs. \<not> by_id i x)
           \<and> snd (patch_vote add postId reqbody st) =
               st\<lparr>forum := xs @ put ''upvotes'' (JNum (Num (of_int (c + 1)))) post # ys\<rparr>)
      \<and> counter (put ''upvotes'' (JNum (Num (of_int (c + 1)))) post) ''downvotes''
           = counter post ''downvotes'')
   \<and> (\<forall>n. c + int n \<le> 9007199254740992 \<longrightarrow>
        (\<exists>post'. findOne (by_id i) (forum (vote_times n add postId reqbody st)) = Some post'
           \<and> counter post' ''upvotes'' = Some (of_int (c + int n))
           \<and> (\<forall>k. k \<noteq> ''upvotes'' \<longrightarrow> map_of post' k = map_of post k)))" by (rule conjI)
qed

lemma vote_not_a_counter:
  "ObjectId postId = Inr i \<and> findOne (by_id i) (forum st) = Some post
     \<and> map_of post ''upvotes'' = Some v \<and> \<not> is_num v
     \<and> get reqbody ''voteType'' = JStr ''up'' \<longrightarrow>
   status (fst (patch_vote add postId reqbody st)) = 500
   \<and> snd (patch_vote add postId reqbody st) = st"
proof
  assume a: "ObjectId postId = Inr i \<and> findOne (by_id i) (forum st) = Some post
     \<and> map_of post ''upvotes'' = Some v \<and> \<not> is_num v
     \<and> get reqbody ''voteType'' = JStr ''up''"
  then obtain xs ys where
    s: "forum st = xs @ post # ys" "\<forall>x \<in> set xs. \<not> by_id i x" "by_id i post"
    using findOne_split by blast
  from a have "inc_op add ''upvotes'' 1 post = Inl WriteError"
    by (simp add: inc_not_number)
  with s have "updateOne (by_id i) (inc_op add ''upvotes'' 1) (forum st) = Inl WriteError"
    using updateOne_first_fails [where p = "by_id i" and u = "inc_op add ''upvotes'' 1"
        and xs = xs and d = post and ys = ys and e = WriteError] by simp
  with a show "status (fst (patch_vote add postId reqbody st)) = 500
     \<and> snd (patch_vote add postId reqbody st) = st"
    by (simp add: patch_vote_def res_status_def)
qed

lemma vote_unmatched:
  "ObjectId postId = Inr i \<and> (\<forall>d \<in> set (forum st). get d ''_id'' \<noteq> JOid i) \<longrightarrow>
   status (fst (patch_vote add postId reqbody st)) = 200
   \<and> snd (patch_vote add postId reqbody st) = st"
  by (simp add: patch_vote_def Let_def updateOne_no_match by_id_def res_json_def)

lemma vote_malformed:
  "ObjectId postId = Inl e \<longrightarrow>
   status (fst (patch_vote add postId reqbody st)) = 500
   \<and> snd (patch_vote add postId reqbody st) = st"
  by (simp add: patch_vote_def Let_def res_status_def)

text \<open>
  C8, as stated, fails. \<^verbatim>\<open>POST /forum\<close> stores any body; on the post it stores for a
  body with \<^verbatim>\<open>upvotes: "3"\<close>, an up-vote answers 500 and changes nothing, because
  \<^verbatim>\<open>$inc\<close> cannot be applied to a text.
\<close>

theorem vote_on_text_counter_is_500:
  "snd (post_forum (mk_oid hexc) text_votes_body empty_store) = text_votes_store
   \<and> status (fst (patch_vote (\<lambda>m n. Inl WriteError) hexc up_vote text_votes_store)) = 500
   \<and> snd (patch_vote (\<lambda>m n. Inl WriteError) hexc up_vote text_votes_store) = text_votes_store"
proof -
  let ?d = "put ''_id'' (JOid (mk_oid hexc)) text_votes_body"
  have 1: "snd (post_forum (mk_oid hexc) text_votes_body empty_store) = text_votes_store"
    by (simp add: post_forum_def insertOne_def Let_def get_put ids_def empty_store_def
        text_votes_store_def)
       (simp add: text_votes_body_def get_def)
  have o: "ObjectId hexc = Inr (mk_oid hexc)"
    by (simp add: ObjectId_def is_hex_def lower_hex_def hexc_def)
  have b: "by_id (mk_oid hexc) ?d" by (simp add: by_id_def get_put)
  have "map_of ?d ''upvotes'' = Some (JStr ''3'')"
    by (simp add: map_of_put text_votes_body_def)
  then have i: "inc_op (\<lambda>m n. Inl WriteError) ''upvotes'' 1 ?d = Inl WriteError"
    by (simp add: inc_op_def)
  have u: "get up_vote ''voteType'' = JStr ''up''" by (simp add: up_vote_def get_def)
  have 2: "patch_vote (\<lambda>m n. Inl WriteError) hexc up_vote text_votes_store
      = (res_status 500 (err_body ''Failed to update vote''), text_votes_store)"
    by (simp add: patch_vote_def Let_def o u text_votes_store_def b i)
  show ?thesis by (simp add: 1 2 res_status_def)
qed

text \<open>
  C8, amended. For a forum post that its identifier finds (the path parameter denotes an
  \<^verbatim>\<open>ObjectId\<close> and the post is the document with that \<^verbatim>\<open>_id\<close>) and whose \<^verbatim>\<open>upvotes\<close>
  is an integer counter \<open>c\<close> (a number, or absent and read as 0) from \<open>-2^53\<close> up:
  if \<open>c\<close> is below \<open>2^53\<close>, a vote with \<^verbatim>\<open>voteType: "up"\<close> answers 200 and leaves the
  store in which that post has \<^verbatim>\<open>upvotes\<close> equal to \<open>c + 1\<close> and every other field,
  every other post and every other collection as before, its \<^verbatim>\<open>downvotes\<close> counter
  included; and \<open>n\<close> such votes leave the post with \<^verbatim>\<open>upvotes\<close> equal to \<open>c + n\<close> and
  all other fields as at the start, as long as \<open>c + n\<close> does not exceed \<open>2^53\<close>. On a
  post whose \<^verbatim>\<open>upvotes\<close> is present and not a number the up-vote answers 500 and
  changes nothing; with an identifier that matches no post the answer is 200 and
  nothing changes; with a path parameter that is no identifier the answer is 500 and
  nothing changes.
\<close>

theorem vote_up_increments:
  "(ObjectId postId = Inr i \<and> findOne (by_id i) (forum st) = Some post
      \<and> counter post ''upvotes'' = Some (of_int c) \<and> - 9007199254740992 \<le> c
      \<and> get reqbody ''voteType'' = JStr ''up'' \<longrightarrow>
    (c < 9007199254740992 \<longrightarrow>
       status (fst (patch_vote add postId reqbody st)) = 200
       \<and> (\<exists>xs ys. forum st = xs @ post # ys \<and> (\<forall>x \<in> set xs. \<not> by_id i x)
            \<and> snd (patch_vote add postId reqbody st) =
                st\<lparr>forum := xs @ put ''upvotes'' (JNum (Num (of_int (c + 1)))) post # ys\<rparr>)
       \<and> counter (put ''upvotes'' (JNum (Num (of_int (c + 1)))) post) ''downvotes''
            = counter post ''downvotes'')
    \<and> (\<forall>n. c + int n \<le> 9007199254740992 \<longrightarrow>
         (\<exists>post'. findOne (by_id i) (forum (vote_times n add postId reqbody st)) = Some post'
            \<and> counter post' ''upvotes'' = Some (of_int (c + int n))
            \<and> (\<forall>k. k \<noteq> ''upvotes'' \<longrightarrow> map_of post' k = map_of post k))))
   \<and> (ObjectId postId = Inr i \<and> findOne (by_id i) (forum st) = Some post
      \<and> map_of post ''upvotes'' = Some v \<and> \<not> is_num v
      \<and> get reqbody ''voteType'' = JStr ''up'' \<longrightarrow>
    status (fst (patch_vote add postId reqbody st)) = 500
    \<and> snd (patch_vote add postId reqbody st) = st)
   \<and> (ObjectId postId = Inr i \<and> (\<forall>d \<in> set (forum st). get d ''_id'' \<noteq> JOid i) \<longrightarrow>
    status (fst (patch_vote add postId reqbody st)) = 200
    \<and> snd (patch_vote add postId reqbody st) = st)
   \<and> (ObjectId postId = Inl e \<longrightarrow>
    status (fst (patch_vote add postId reqbody st)) = 500
    \<and> snd (patch_vote add postId reqbody st) = st)"
  by (intro conjI vote_counted vote_not_a_counter vote_unmatched vote_malformed)

lemma ObjectId_hexc: "ObjectId hexc = Inr (mk_oid hexc)"
  by (simp add: ObjectId_def is_hex_def lower_hex_def hexc_def)

lemma oid_a_neq_c: "mk_oid hexa \<noteq> mk_oid hexc"
proof -
  have "canonical_hex hexc" by (simp add: canonical_hex_def is_lower_hex_def hexc_def)
  then show ?thesis
    by (simp add: mk_oid_inject canonical_hexa) (simp add: hexa_def hexc_def)
qed

text \<open>The amended C8 on a store with one post that has two up-votes (one vote answers
  200, three votes give five; the unknown identifier \<open>hexa\<close> and the malformed
  \<^verbatim>\<open>abc\<close> change nothing), and on the store with the post whose \<^verbatim>\<open>upvotes\<close> is a
  text.\<close>

theorem vote_up_increments_witness:
  "status (fst (patch_vote (\<lambda>m n. Inl WriteError) hexc up_vote forum_store)) = 200
   \<and> (\<exists>post'. findOne (by_id (mk_oid hexc))
          (forum (vote_times 3 (\<lambda>m n. Inl WriteError) hexc up_vote forum_store)) = Some post'
        \<and> counter post' ''upvotes'' = Some 5)
   \<and> status (fst (patch_vote (\<lambda>m n. Inl WriteError) hexc up_vote text_votes_store)) = 500
   \<and> status (fst (patch_vote (\<lambda>m n. Inl WriteError) hexa up_vote forum_store)) = 200
   \<and> snd (patch_vote (\<lambda>m n. Inl WriteError) hexa up_vote forum_store) = forum_store
   \<and> status (fst (patch_vote (\<lambda>m n. Inl WriteError) ''abc'' up_vote forum_store)) = 500"
proof -
  let ?add = "\<lambda>(m::rat) (n::rat). (Inl WriteError :: error + jsnum)"
  have h2: "findOne (by_id (mk_oid hexc)) (forum forum_store) = Some sample_post"
    by (simp add: findOne_def by_id_def forum_store_def sample_post_def get_def)
  have h3: "counter sample_post ''upvotes'' = Some (of_int 2)"
    by (simp add: counter_def sample_post_def)
  have h4: "get up_vote ''voteType'' = JStr ''up''" by (simp add: up_vote_def get_def)
  note t1 = vote_up_increments [where postId = hexc and i = "mk_oid hexc" and st = forum_store
      and post = sample_post and c = 2 and reqbody = up_vote and add = ?add]
  from t1 ObjectId_hexc h2 h3 h4 have
    a: "status (fst (patch_vote ?add hexc up_vote forum_store)) = 200"
    by simp
  from t1 ObjectId_hexc h2 h3 h4 have
    "\<forall>n. 2 + int n \<le> 9007199254740992 \<longrightarrow>
       (\<exists>post'. findOne (by_id (mk_oid hexc)) (forum (vote_times n ?add hexc up_vote forum_store)) = Some post'
          \<and> counter post' ''upvotes'' = Some (of_int (2 + int n))
          \<and> (\<forall>k. k \<noteq> ''upvotes'' \<longrightarrow> map_of post' k = map_of sample_post k))"
    by simp
  from this [rule_format, of 3] have
    b: "\<exists>post'. findOne (by_id (mk_oid hexc)) (forum (vote_times 3 ?add hexc up_vote forum_store)) = Some post'
          \<and> counter post' ''upvotes'' = Some 5"
    by auto
  have f: "findOne (by_id (mk_oid hexc)) (forum text_votes_store)
      = Some (put ''_id'' (JOid (mk_oid hexc)) text_votes_body)"
    by (simp add: findOne_def by_id_def text_votes_store_def get_put)
  have m: "map_of (put ''_id'' (JOid (mk_oid hexc)) text_votes_body) ''upvotes'' = Some (JStr ''3'')"
    by (simp add: map_of_put text_votes_body_def)
  from vote_up_increments [where postId = hexc and i = "mk_oid hexc" and st = text_votes_store
      and post = "put ''_id'' (JOid (mk_oid hexc)) text_votes_body" and v = "JStr ''3''"
      and reqbody = up_vote and add = ?add] ObjectId_hexc f m h4
  have c: "status (fst (patch_vote ?add hexc up_vote text_votes_store)) = 500"
    by simp
  have u: "\<forall>d \<in> set (forum forum_store). get d ''_id'' \<noteq> JOid (mk_oid hexa)"
    using oid_a_neq_c by (simp add: forum_store_def sample_post_def get_def)
  from vote_up_increments [where postId = hexa and i = "mk_oid hexa" and st = forum_store
      and reqbody = up_vote and add = ?add] ObjectId_hexa(1) u
  have d: "status (fst (patch_vote ?add hexa up_vote forum_store)) = 200"
    "snd (patch_vote ?add hexa up_vote forum_store) = forum_store"
    by simp_all
  have "ObjectId ''abc'' = Inl BSONError" by (simp add: ObjectId_def)
  with vote_up_increments [where postId = "''abc''" and e = BSONError and st = forum_store
      and reqbody = up_vote and add = ?add]
  have e: "status (fst (patch_vote ?add ''abc'' up_vote forum_store)) = 500"
    by simp
  from a b c d e show ?thesis by simp
qed

subsection \<open>Approving an application\<close>

lemma insertOne_fresh:
  "get d ''_id'' = JUndefined \<Longrightarrow> JOid nid \<notin> set (ids col) \<Longrightarrow>
     insertOne nid d col = Inr (JOid nid, col @ [put ''_id'' (JOid nid) d])"
  by (simp add: insertOne_def Let_def get_put)

lemma deleteOne_first:
  "\<forall>x \<in> set xs. \<not> p x \<Longrightarrow> p d \<Longrightarrow> deleteOne p (xs @ d # ys) = xs @ ys"
  by (induction xs) simp_all

lemma unique_id:
  assumes "distinct (ids col)" and "d \<in> set col" and "e \<in> set col" and "by_id i d" and "by_id i e"
  shows "d = e"
proof -
  have "inj_on (\<lambda>x. get x ''_id'') (set col)"
    using assms(1) by (simp add: ids_def distinct_map)
  moreover have "get d ''_id'' = get e ''_id''"
    using assms(4,5) by (simp add: by_id_def)
  ultimately show ?thesis using assms(2,3) by (auto dest: inj_onD)
qed

lemma findOne_unique:
  assumes "distinct (ids col)" and "d \<in> set col" and "by_id i d"
  shows "findOne (by_id i) col = Some d"
proof (cases "findOne (by_id i) col")
  case None
  with assms(2,3) show ?thesis by (simp add: findOne_None_iff)
next
  case (Some e)
  then obtain xs ys where "col = xs @ e # ys" "by_id i e"
    using findOne_split by blast
  with assms have "d = e" using unique_id [of col d e i] by simp
  with Some show ?thesis by simp
qed

lemma set_sort_newest: "set (sort_newest col) = set col"
  by (simp add: sort_newest_def)

lemma get_approved_copy:
  "get (approved_copy now a) ''_id'' = JUndefined"
  "get (approved_copy now a) ''name'' = get a ''name''"
  "get (approved_copy now a) ''email'' = get a ''email''"
  "get (approved_copy now a) ''age'' = get a ''age''"
  "get (approved_copy now a) ''image'' = get a ''image''"
  "get (approved_copy now a) ''experience'' = get a ''experience''"
  "get (approved_copy now a) ''details'' = get a ''details''"
  "get (approved_copy now a) ''expertise'' = js_or (get a ''expertise'') (JArr [])"
  "get (approved_copy now a) ''availableDays'' = js_or (get a ''availableDays'') (JArr [])"
  "get (approved_copy now a) ''availableSlots'' = js_or (get a ''availableSlots'') (JArr [])"
  "get (approved_copy now a) ''socials'' = js_or (get a ''socials'') (JObj [])"
  "get (approved_copy now a) ''status'' = JStr ''approved''"
  "get (approved_copy now a) ''createdAt'' = JDate now"
  by (simp_all add: approved_copy_def get_def)

lemma confirm_result:
  assumes "ObjectId id_param = Inr i"
    and "trainers st = xs @ app # ys" and "\<forall>x \<in> set xs. \<not> by_id i x" and "by_id i app"
    and "JOid nid \<notin> set (ids (trainers st))"
  shows "patch_confirm now nid id_param st =
     (res_json (JObj [(''success'', JBool True), (''message'', JStr ''Trainer approved and added'')]),
      st\<lparr>trainers := xs @ ys @ [put ''_id'' (JOid nid) (approved_copy now app)]\<rparr>)"
proof -
  have f: "findOne (by_id i) (trainers st) = Some app"
    using assms(2,3,4) by (simp add: findOne_first)
  have n: "insertOne nid (approved_copy now app) (trainers st)
      = Inr (JOid nid, trainers st @ [put ''_id'' (JOid nid) (approved_copy now app)])"
    using assms(5) by (simp add: insertOne_fresh get_approved_copy)
  have d: "deleteOne (by_id i) (trainers st @ [put ''_id'' (JOid nid) (approved_copy now app)])
      = xs @ ys @ [put ''_id'' (JOid nid) (approved_copy now app)]"
    using deleteOne_first [where p = "by_id i" and xs = xs and d = app
        and ys = "ys @ [put ''_id'' (JOid nid) (approved_copy now app)]"] assms(2,3,4)
    by simp
  show ?thesis
    using assms(1) f n d by (simp add: patch_confirm_def)
qed

text \<open>
  C1. Let \<open>app\<close> be a pending application in the trainers collection whose \<^verbatim>\<open>_id\<close> is
  the \<^verbatim>\<open>ObjectId\<close> that the path parameter denotes, in a collection whose identifiers
  are unique and do not contain the identifier generated for the insert. Then Approve
  answers 200; \<open>app\<close>, which the pending list showed before, is not in it afterwards (no
  document with its identifier is left); the trainers collection, and so the trainer
  list, contains a new document with \<^verbatim>\<open>status: "approved"\<close>, the name, email, age,
  image, experience and details of the application, its expertise, availableDays,
  availableSlots and socials (an empty list, or map, in place of a falsy value), and
  \<^verbatim>\<open>createdAt\<close> equal to the clock reading; no other collection changes.
\<close>

theorem approve_application:
  assumes "ObjectId id_param = Inr i"
    and "app \<in> set (trainers st)" and "get app ''_id'' = JOid i"
    and "get app ''status'' = JStr ''pending''"
    and "distinct (ids (trainers st))" and "JOid nid \<notin> set (ids (trainers st))"
  shows "let r = patch_confirm now nid id_param st; st' = snd r;
             new = put ''_id'' (JOid nid) (approved_copy now app)
         in status (fst r) = 200
          \<and> app \<in> set (pending_applications st)
          \<and> app \<notin> set (pending_applications st')
          \<and> (\<forall>d \<in> set (trainers st'). get d ''_id'' \<noteq> JOid i)
          \<and> new \<in> set (trainers st')
          \<and> get_trainers st' = res_json (docs (sort_newest (trainers st')))
          \<and> new \<in> set (sort_newest (trainers st'))
          \<and> get new ''status'' = JStr ''approved''
          \<and> get new ''name'' = get app ''name''
          \<and> get new ''email'' = get app ''email''
          \<and> get new ''age'' = get app ''age''
          \<and> get new ''image'' = get app ''image''
          \<and> get new ''experience'' = get app ''experience''
          \<and> get new ''details'' = get app ''details''
          \<and> get new ''expertise'' =
               (if truthy (get app ''expertise'') then get app ''expertise'' else JArr [])
          \<and> get new ''availableDays'' =
               (if truthy (get app ''availableDays'') then get app ''availableDays'' else JArr [])
          \<and> get new ''availableSlots'' =
               (if truthy (get app ''availableSlots'') then get app ''availableSlots'' else JArr [])
          \<and> get new ''socials'' =
               (if truthy (get app ''socials'') then get app ''socials'' else JObj [])
          \<and> get new ''createdAt'' = JDate now
          \<and> st' = st\<lparr>trainers := trainers st'\<rparr>"
proof -
  let ?new = "put ''_id'' (JOid nid) (approved_copy now app)"
  have b: "by_id i app" using assms(3) by (simp add: by_id_def)
  have "findOne (by_id i) (trainers st) = Some app"
    using findOne_unique [OF assms(5) assms(2) b] .
  then obtain xs ys where s: "trainers st = xs @ app # ys" "\<forall>x \<in> set xs. \<not> by_id i x"
    using findOne_split by blast
  note r = confirm_result [OF assms(1) s b assms(6), of now]
  have t: "trainers (snd (patch_confirm now nid id_param st)) = xs @ ys @ [?new]"
    by (simp add: r)
  have others: "\<forall>d \<in> set (xs @ ys). get d ''_id'' \<noteq> JOid i"
  proof
    fix d assume d: "d \<in> set (xs @ ys)"
    show "get d ''_id'' \<noteq> JOid i"
    proof
      assume "get d ''_id'' = JOid i"
      then have "by_id i d" by (simp add: by_id_def)
      moreover from d s(1) have "d \<in> set (trainers st)" by auto
      ultimately have "d = app" using unique_id [OF assms(5) _ assms(2) _ b] by blast
      moreover from assms(5) s(1) have "get app ''_id'' \<notin> set (ids (xs @ ys))"
        by (simp add: ids_def)
      ultimately show False using d by (auto simp add: ids_def)
    qed
  qed
  have "JOid i \<in> set (ids (trainers st))"
    using assms(2,3) by (force simp add: ids_def)
  with assms(6) have nid_i: "JOid nid \<noteq> JOid i" by auto
  have newid: "get ?new ''_id'' = JOid nid" by (simp add: get_put)
  have gone: "\<forall>d \<in> set (xs @ ys @ [?new]). get d ''_id'' \<noteq> JOid i"
    using others nid_i newid by auto
  have 1: "status (fst (patch_confirm now nid id_param st)) = 200"
    by (simp add: r res_json_def)
  have 2: "app \<in> set (pending_applications st)"
    using assms(2,4) by (simp add: pending_applications_def field_eq_def)
  have 3: "app \<notin> set (pending_applications (snd (patch_confirm now nid id_param st)))"
    using gone assms(3) by (auto simp add: pending_applications_def t)
  have 4: "\<forall>d \<in> set (trainers (snd (patch_confirm now nid id_param st))). get d ''_id'' \<noteq> JOid i"
    using gone by (simp only: t)
  have 5: "?new \<in> set (trainers (snd (patch_confirm now nid id_param st)))"
    by (simp add: t)
  have 6: "?new \<in> set (sort_newest (trainers (snd (patch_confirm now nid id_param st))))"
    using 5 by (simp only: set_sort_newest)
  have 7: "snd (patch_confirm now nid id_param st)
      = st\<lparr>trainers := trainers (snd (patch_confirm now nid id_param st))\<rparr>"
    by (simp add: r)
  have g: "get ?new ''status'' = JStr ''approved''" "get ?new ''name'' = get app ''name''"
    "get ?new ''email'' = get app ''email''" "get ?new ''age'' = get app ''age''"
    "get ?new ''image'' = get app ''image''" "get ?new ''experience'' = get app ''experience''"
    "get ?new ''details'' = get app ''details''"
    "get ?new ''expertise'' = (if truthy (get app ''expertise'') then get app ''expertise'' else JArr [])"
    "get ?new ''availableDays'' = (if truthy (get app ''availableDays'') then get app ''availableDays'' else JArr [])"
    "get ?new ''availableSlots'' = (if truthy (get app ''availableSlots'') then get app ''availableSlots'' else JArr [])"
    "get ?new ''socials'' = (if truthy (get app ''socials'') then get app ''socials'' else JObj [])"
    "get ?new ''createdAt'' = JDate now"
    by (simp_all add: get_put get_approved_copy js_or_def)
  show ?thesis
    unfolding Let_def
    by (intro conjI 1 2 3 4 5 6 7 g) (simp add: get_trainers_def)
qed

text \<open>C1 on the sample store: the application \<open>hexb\<close> is approved at time 7, the new
  document gets the identifier \<open>hexa\<close>.\<close>

theorem approve_application_witness:
  "status (fst (patch_confirm 7 (mk_oid hexa) hexb sample_store)) = 200
   \<and> pending_applications sample_store = [sample_application]
   \<and> sample_application \<notin> set (pending_applications (snd (patch_confirm 7 (mk_oid hexa) hexb sample_store)))
   \<and> get (put ''_id'' (JOid (mk_oid hexa)) (approved_copy 7 sample_application)) ''email'' = JStr ''ann@example.com''
   \<and> get (put ''_id'' (JOid (mk_oid hexa)) (approved_copy 7 sample_application)) ''expertise'' = JArr [JStr ''yoga'']
   \<and> put ''_id'' (JOid (mk_oid hexa)) (approved_copy 7 sample_application)
        \<in> set (trainers (snd (patch_confirm 7 (mk_oid hexa) hexb sample_store)))"
proof -
  have h2: "sample_application \<in> set (trainers sample_store)"
    by (simp add: sample_store_def)
  have h3: "get sample_application ''_id'' = JOid (mk_oid hexb)"
    by (simp add: sample_application_def get_def)
  have h4: "get sample_application ''status'' = JStr ''pending''"
    by (simp add: sample_application_def get_def)
  have h5: "distinct (ids (trainers sample_store))"
    by (simp add: sample_store_def ids_def)
  have h6: "JOid (mk_oid hexa) \<notin> set (ids (trainers sample_store))"
    using oid_a_neq_b by (simp add: sample_store_def ids_def h3)
  have p: "pending_applications sample_store = [sample_application]"
    by (simp add: pending_applications_def sample_store_def field_eq_def h4)
  have e: "get sample_application ''email'' = JStr ''ann@example.com''"
    "get sample_application ''expertise'' = JArr [JStr ''yoga'']"
    by (simp_all add: sample_application_def get_def)
  show ?thesis
    using approve_application [OF ObjectId_hexa(2) h2 h3 h4 h5 h6, of 7] p e
    by (simp add: Let_def)
qed

subsection \<open>Submitting an application\<close>

lemma get_newTrainer:
  "get (newTrainer rt now t) ''_id'' = JUndefined"
  "get (newTrainer rt now t) ''age'' = JNum (Number rt (get t ''age''))"
  "get (newTrainer rt now t) ''experience'' = JNum (Number rt (get t ''experience''))"
  "get (newTrainer rt now t) ''expertise'' = (if isArray (get t ''expertise'') then get t ''expertise'' else JArr [])"
  "get (newTrainer rt now t) ''availableDays'' = (if isArray (get t ''availableDays'') then get t ''availableDays'' else JArr [])"
  "get (newTrainer rt now t) ''availableSlots'' = (if isArray (get t ''availableSlots'') then get t ''availableSlots'' else JArr [])"
  "get (newTrainer rt now t) ''socials'' = js_or (get t ''socials'') default_socials"
  "get (newTrainer rt now t) ''status'' = js_or (get t ''status'') (JStr ''pending'')"
  by (simp_all add: newTrainer_def get_def)

text \<open>
  C2, as stated, fails in two points. For a body that carries \<^verbatim>\<open>status: "approved"\<close>
  and no \<^verbatim>\<open>socials\<close>, the inserted document has that status, not \<^verbatim>\<open>"pending"\<close>, and
  its \<^verbatim>\<open>socials\<close> is the object of three empty strings, not the empty map.
\<close>

theorem apply_keeps_payload_status:
  "trainers (snd (post_trainers_apply (\<lambda>v. NaN) 7 (mk_oid hexa) eve_payload empty_store))
     = [put ''_id'' (JOid (mk_oid hexa)) (newTrainer (\<lambda>v. NaN) 7 eve_payload)]
   \<and> get (put ''_id'' (JOid (mk_oid hexa)) (newTrainer (\<lambda>v. NaN) 7 eve_payload)) ''status''
       = JStr ''approved''
   \<and> get eve_payload ''socials'' = JUndefined
   \<and> get (put ''_id'' (JOid (mk_oid hexa)) (newTrainer (\<lambda>v. NaN) 7 eve_payload)) ''socials''
       = JObj [(''facebook'', JStr []), (''instagram'', JStr []), (''linkedin'', JStr [])]"
  by (simp add: post_trainers_apply_def insertOne_def Let_def get_put get_newTrainer empty_store_def
      ids_def js_or_def default_socials_def) (simp add: eve_payload_def get_def)

text \<open>
  C2, amended. For every body submitted to \<^verbatim>\<open>POST /trainers/apply\<close> (the generated
  identifier being new to the collection), the answer is 200 and exactly one document
  is appended to the trainers collection, in which \<^verbatim>\<open>age\<close> and \<^verbatim>\<open>experience\<close> are the
  numbers \<^verbatim>\<open>Number(age)\<close> and \<^verbatim>\<open>Number(experience)\<close>; each of \<^verbatim>\<open>expertise\<close>,
  \<^verbatim>\<open>availableDays\<close> and \<^verbatim>\<open>availableSlots\<close> is the body's value when that is an array and
  the empty list otherwise; \<^verbatim>\<open>socials\<close> is the body's value when truthy and otherwise
  the object with the three keys facebook, instagram and linkedin, each the empty
  string; and \<^verbatim>\<open>status\<close> is the body's status when truthy and \<^verbatim>\<open>"pending"\<close> otherwise.
\<close>

theorem apply_builds_document:
  assumes "JOid nid \<notin> set (ids (trainers st))"
  shows "let r = post_trainers_apply rt now nid trainer st;
             d = put ''_id'' (JOid nid) (newTrainer rt now trainer)
         in status (fst r) = 200
          \<and> snd r = st\<lparr>trainers := trainers st @ [d]\<rparr>
          \<and> get d ''age'' = JNum (Number rt (get trainer ''age''))
          \<and> get d ''experience'' = JNum (Number rt (get trainer ''experience''))
          \<and> get d ''expertise'' =
               (if isArray (get trainer ''expertise'') then get trainer ''expertise'' else JArr [])
          \<and> get d ''availableDays'' =
               (if isArray (get trainer ''availableDays'') then get trainer ''availableDays'' else JArr [])
          \<and> get d ''availableSlots'' =
               (if isArray (get trainer ''availableSlots'') then get trainer ''availableSlots'' else JArr [])
          \<and> get d ''socials'' =
               (if truthy (get trainer ''socials'') then get trainer ''socials''
                else JObj [(''facebook'', JStr []), (''instagram'', JStr []), (''linkedin'', JStr [])])
          \<and> get d ''status'' =
               (if truthy (get trainer ''status'') then get trainer ''status'' else JStr ''pending'')"
proof -
  let ?d = "put ''_id'' (JOid nid) (newTrainer rt now trainer)"
  have i: "insertOne nid (newTrainer rt now trainer) (trainers st)
      = Inr (JOid nid, trainers st @ [?d])"
    using assms by (simp add: insertOne_fresh get_newTrainer)
  have 1: "status (fst (post_trainers_apply rt now nid trainer st)) = 200"
    by (simp add: post_trainers_apply_def i res_json_def)
  have 2: "snd (post_trainers_apply rt now nid trainer st) = st\<lparr>trainers := trainers st @ [?d]\<rparr>"
    by (simp add: post_trainers_apply_def i)
  have g: "get ?d ''age'' = JNum (Number rt (get trainer ''age''))"
    "get ?d ''experience'' = JNum (Number rt (get trainer ''experience''))"
    "get ?d ''expertise'' = (if isArray (get trainer ''expertise'') then get trainer ''expertise'' else JArr [])"
    "get ?d ''availableDays'' = (if isArray (get trainer ''availableDays'') then get trainer ''availableDays'' else JArr [])"
    "get ?d ''availableSlots'' = (if isArray (get trainer ''availableSlots'') then get trainer ''availableSlots'' else JArr [])"
    "get ?d ''socials'' = (if truthy (get trainer ''socials'') then get trainer ''socials''
                else JObj [(''facebook'', JStr []), (''instagram'', JStr []), (''linkedin'', JStr [])])"
    "get ?d ''status'' = (if truthy (get trainer ''status'') then get trainer ''status'' else JStr ''pending'')"
    by (simp_all add: get_put get_newTrainer js_or_def default_socials_def)
  show ?thesis
    unfolding Let_def by (intro conjI 1 2 g)
qed

text \<open>The amended C2 for the sample body on the sample store.\<close>

theorem apply_builds_document_witness:
  "status (fst (post_trainers_apply (\<lambda>v. NaN) 7 (mk_oid hexa) eve_payload sample_store)) = 200
   \<and> get (put ''_id'' (JOid (mk_oid hexa)) (newTrainer (\<lambda>v. NaN) 7 eve_payload)) ''age'' = JNum (Num 31)
   \<and> get (put ''_id'' (JOid (mk_oid hexa)) (newTrainer (\<lambda>v. NaN) 7 eve_payload)) ''experience'' = JNum NaN
   \<and> get (put ''_id'' (JOid (mk_oid hexa)) (newTrainer (\<lambda>v. NaN) 7 eve_payload)) ''expertise'' = JArr []
   \<and> trainers (snd (post_trainers_apply (\<lambda>v. NaN) 7 (mk_oid hexa) eve_payload sample_store))
       = [sample_application, put ''_id'' (JOid (mk_oid hexa)) (newTrainer (\<lambda>v. NaN) 7 eve_payload)]"
proof -
  have h: "JOid (mk_oid hexa) \<notin> set (ids (trainers sample_store))"
    using oid_a_neq_b by (simp add: sample_store_def ids_def sample_application_def get_def)
  have e: "get eve_payload ''age'' = JNum (Num 31)" "get eve_payload ''experience'' = JUndefined"
    "get eve_payload ''expertise'' = JStr ''boxing''"
    by (simp_all add: eve_payload_def get_def)
  show ?thesis
    using apply_builds_document [OF h, of "\<lambda>v. NaN" 7 eve_payload] e
    by (simp add: Let_def sample_store_def)
qed

subsection \<open>Listing classes\<close>

lemma parseInt_2: "parseInt ''2'' = Some 2"
  by (simp add: parseInt_def is_space_def wide_space_def digit10_def radix_val_def Let_def)

lemma parseInt_6: "parseInt ''6'' = Some 6"
  by (simp add: parseInt_def is_space_def wide_space_def digit10_def radix_val_def Let_def)

lemma total_pages_six: "total_pages n 6 = (int n + 5) div 6"
proof -
  have "\<lceil>(of_nat n :: rat) / 6\<rceil> = \<lceil>(of_int (int n) :: rat) / of_int 6\<rceil>" by simp
  also have "\<dots> = - ((- int n) div 6)" by (simp only: ceiling_divide_eq_div)
  also have "\<dots> = (int n + 5) div 6" by presburger
  finally show ?thesis by (simp add: total_pages_def)
qed

lemma classes_page_query:
  assumes "class_query rx (case qsearch of None \<Rightarrow> [] | Some s \<Rightarrow> s) = Inr query"
  shows "let matching = filter query (classes st);
             totalClasses = length matching;
             page = take 6 (drop ((2 - 1) * 6) (sort_newest matching))
         in get_classes rx (Some ''2'') (Some ''6'') qsearch st =
              \<lparr>status = 200,
               body = JObj [(''data'', docs page), (''currentPage'', jint 2),
                        (''totalPages'', jint \<lceil>(of_nat totalClasses :: rat) / 6\<rceil>),
                        (''totalClasses'', jint (int totalClasses))]\<rparr>
          \<and> length page \<le> 6
          \<and> \<lceil>(of_nat totalClasses :: rat) / 6\<rceil> = (int totalClasses + 5) div 6
          \<and> (qsearch = None \<or> qsearch = Some [] \<longrightarrow> matching = classes st)"
proof -
  have p: "parse_or (Some ''2'') 1 = 2" "parse_or (Some ''6'') 6 = 6"
    by (simp_all add: parse_or_def parseInt_2 parseInt_6)
  have q: "qsearch = None \<or> qsearch = Some [] \<Longrightarrow> query = (\<lambda>d. True)"
    using assms by (auto simp add: class_query_def)
  have 1: "get_classes rx (Some ''2'') (Some ''6'') qsearch st =
      \<lparr>status = 200,
       body = JObj [(''data'', docs (take 6 (drop ((2 - 1) * 6) (sort_newest (filter query (classes st)))))),
                (''currentPage'', jint 2),
                (''totalPages'', jint \<lceil>(of_nat (length (filter query (classes st))) :: rat) / 6\<rceil>),
                (''totalClasses'', jint (int (length (filter query (classes st)))))]\<rparr>"
    using assms by (simp add: get_classes_def p Let_def skip_limit_def res_json_def total_pages_def)
  have 3: "\<lceil>(of_nat (length (filter query (classes st))) :: rat) / 6\<rceil>
      = (int (length (filter query (classes st))) + 5) div 6"
    using total_pages_six [of "length (filter query (classes st))"] by (simp add: total_pages_def)
  have 4: "qsearch = None \<or> qsearch = Some [] \<longrightarrow> filter query (classes st) = classes st"
    using q by auto
  show ?thesis
    unfolding Let_def by (intro conjI 1 3 4) simp
qed

lemma created_key_class_doc: "created_key (class_doc n) = - int n - 1"
  by (simp add: created_key_def class_doc_def get_def)

lemma classes_rejected:
  "qsearch = Some s \<and> s \<noteq> [] \<and> rx s = None \<longrightarrow>
     status (get_classes rx (Some ''2'') (Some ''6'') qsearch st) = 500"
  by (simp add: get_classes_def class_query_def Let_def res_status_def)

lemma classes_all:
  "qsearch = None \<or> qsearch = Some [] \<longrightarrow>
     (let totalClasses = length (classes st);
          page = take 6 (drop ((2 - 1) * 6) (sort_newest (classes st)))
      in get_classes rx (Some ''2'') (Some ''6'') qsearch st =
           \<lparr>status = 200,
            body = JObj [(''data'', docs page), (''currentPage'', jint 2),
                     (''totalPages'', jint \<lceil>(of_nat totalClasses :: rat) / 6\<rceil>),
                     (''totalClasses'', jint (int totalClasses))]\<rparr>
       \<and> length page \<le> 6
       \<and> \<lceil>(of_nat totalClasses :: rat) / 6\<rceil> = (int totalClasses + 5) div 6)"
proof
  assume a: "qsearch = None \<or> qsearch = Some []"
  then have q: "class_query rx (case qsearch of None \<Rightarrow> [] | Some s \<Rightarrow> s) = Inr (\<lambda>d. True)"
    by (auto simp add: class_query_def)
  from classes_page_query [OF q, of st, unfolded Let_def]
  show "let totalClasses = length (classes st);
          page = take 6 (drop ((2 - 1) * 6) (sort_newest (classes st)))
      in get_classes rx (Some ''2'') (Some ''6'') qsearch st =
           \<lparr>status = 200,
            body = JObj [(''data'', docs page), (''currentPage'', jint 2),
                     (''totalPages'', jint \<lceil>(of_nat totalClasses :: rat) / 6\<rceil>),
                     (''totalClasses'', jint (int totalClasses))]\<rparr>
       \<and> length page \<le> 6
       \<and> \<lceil>(of_nat totalClasses :: rat) / 6\<rceil> = (int totalClasses + 5) div 6"
    unfolding Let_def by simp
qed

lemma classes_searched:
  "qsearch = Some s \<and> s \<noteq> [] \<and> rx s = Some m \<longrightarrow>
     (let matching = filter (\<lambda>d. regex_match m (get d ''name'')) (classes st);
          totalClasses = length matching;
          page = take 6 (drop ((2 - 1) * 6) (sort_newest matching))
      in get_classes rx (Some ''2'') (Some ''6'') qsearch st =
           \<lparr>status = 200,
            body = JObj [(''data'', docs page), (''currentPage'', jint 2),
                     (''totalPages'', jint \<lceil>(of_nat totalClasses :: rat) / 6\<rceil>),
                     (''totalClasses'', jint (int totalClasses))]\<rparr>
       \<and> length page \<le> 6
       \<and> \<lceil>(of_nat totalClasses :: rat) / 6\<rceil> = (int totalClasses + 5) div 6)"
proof
  assume a: "qsearch = Some s \<and> s \<noteq> [] \<and> rx s = Some m"
  then have q: "class_query rx (case qsearch of None \<Rightarrow> [] | Some s \<Rightarrow> s)
      = Inr (\<lambda>d. regex_match m (get d ''name''))"
    by (simp add: class_query_def)
  from classes_page_query [OF q, of st, unfolded Let_def]
  show "let matching = filter (\<lambda>d. regex_match m (get d ''name'')) (classes st);
          totalClasses = length matching;
          page = take 6 (drop ((2 - 1) * 6) (sort_newest matching))
      in get_classes rx (Some ''2'') (Some ''6'') qsearch st =
           \<lparr>status = 200,
            body = JObj [(''data'', docs page), (''currentPage'', jint 2),
                     (''totalPages'', jint \<lceil>(of_nat totalClasses :: rat) / 6\<rceil>),
                     (''totalClasses'', jint (int totalClasses))]\<rparr>
       \<and> length page \<le> 6
       \<and> \<lceil>(of_nat totalClasses :: rat) / 6\<rceil> = (int totalClasses + 5) div 6"
    unfolding Let_def by blast
qed

text \<open>
  C7, as stated, fails. The search is a regular expression, and not every state of the
  classes collection and every search gives a page: on the store of seven classes,
  \<^verbatim>\<open>GET /classes?page=2&limit=6&search=(\<close> answers 500, because the store rejects the
  pattern \<^verbatim>\<open>(\<close> and the query throws.
\<close>

theorem classes_rejected_pattern_is_500:
  "letters_rx ''('' = None
   \<and> status (get_classes letters_rx (Some ''2'') (Some ''6'') (Some ''('') classes_store) = 500"
  by (simp add: letters_rx_def is_letter_def get_classes_def class_query_def Let_def res_status_def)

text \<open>
  C7, amended. For every store and every regular-expression engine,
  \<^verbatim>\<open>GET /classes?page=2&limit=6\<close> answers as follows. Without a search, or with the empty
  one, every class matches. With a search that the store accepts as a pattern, the
  matching classes are those whose \<^verbatim>\<open>name\<close> is a string that the case-insensitive
  pattern matches, or an array with such a string among its elements. In both cases the
  answer is 200 with \<^verbatim>\<open>currentPage\<close> 2, with \<^verbatim>\<open>totalClasses\<close> the number of matching
  classes, with \<^verbatim>\<open>totalPages\<close> the ceiling of that number divided by 6, and with
  \<^verbatim>\<open>data\<close> the at most six classes that follow the first \<open>(2 - 1) * 6\<close> of the matching
  classes sorted newest first. With a search that the store rejects as a pattern the
  answer is 500.
\<close>

theorem classes_page_two:
  "(qsearch = None \<or> qsearch = Some [] \<longrightarrow>
     (let totalClasses = length (classes st);
          page = take 6 (drop ((2 - 1) * 6) (sort_newest (classes st)))
      in get_classes rx (Some ''2'') (Some ''6'') qsearch st =
           \<lparr>status = 200,
            body = JObj [(''data'', docs page), (''currentPage'', jint 2),
                     (''totalPages'', jint \<lceil>(of_nat totalClasses :: rat) / 6\<rceil>),
                     (''totalClasses'', jint (int totalClasses))]\<rparr>
       \<and> length page \<le> 6
       \<and> \<lceil>(of_nat totalClasses :: rat) / 6\<rceil> = (int totalClasses + 5) div 6))
   \<and> (qsearch = Some s \<and> s \<noteq> [] \<and> rx s = Some m \<longrightarrow>
     (let matching = filter (\<lambda>d. regex_match m (get d ''name'')) (classes st);
          totalClasses = length matching;
          page = take 6 (drop ((2 - 1) * 6) (sort_newest matching))
      in get_classes rx (Some ''2'') (Some ''6'') qsearch st =
           \<lparr>status = 200,
            body = JObj [(''data'', docs page), (''currentPage'', jint 2),
                     (''totalPages'', jint \<lceil>(of_nat totalClasses :: rat) / 6\<rceil>),
                     (''totalClasses'', jint (int totalClasses))]\<rparr>
       \<and> length page \<le> 6
       \<and> \<lceil>(of_nat totalClasses :: rat) / 6\<rceil> = (int totalClasses + 5) div 6))
   \<and> (qsearch = Some s \<and> s \<noteq> [] \<and> rx s = None \<longrightarrow>
     status (get_classes rx (Some ''2'') (Some ''6'') qsearch st) = 500)"
  by (intro conjI classes_all classes_searched classes_rejected)

lemma created_key_yoga_doc: "created_key (yoga_doc n) = - int n - 1"
  by (simp add: created_key_def yoga_doc_def get_def)

lemma created_key_listed_names_doc: "created_key (listed_names_doc n) = - int n - 1"
  by (simp add: created_key_def listed_names_doc_def get_def)

lemma pil_matches:
  "regex_match (contains_ci ''pil'') (get (class_doc n) ''name'') = True"
  "regex_match (contains_ci ''pil'') (get (listed_names_doc n) ''name'') = True"
  "regex_match (contains_ci ''pil'') (get (yoga_doc n) ''name'') = False"
  by (simp_all add: class_doc_def listed_names_doc_def yoga_doc_def get_def fold_case_def)

text \<open>The amended C7 on the store of nine classes: without a search the second page
  holds the three oldest of the nine; the search \<^verbatim>\<open>pil\<close> leaves the seven named
  Pilates, in whatever case and also inside an array, and the second page holds the
  oldest of them; the search \<^verbatim>\<open>(\<close> answers 500.\<close>

theorem classes_page_two_witness:
  "get_classes letters_rx (Some ''2'') (Some ''6'') None mixed_store =
     \<lparr>status = 200,
      body = JObj [(''data'', docs [class_doc 3, class_doc 2, class_doc 1]), (''currentPage'', jint 2),
               (''totalPages'', jint 2), (''totalClasses'', jint 9)]\<rparr>
   \<and> get_classes letters_rx (Some ''2'') (Some ''6'') (Some ''pil'') mixed_store =
     \<lparr>status = 200,
      body = JObj [(''data'', docs [class_doc 1]), (''currentPage'', jint 2),
               (''totalPages'', jint 2), (''totalClasses'', jint 7)]\<rparr>
   \<and> status (get_classes letters_rx (Some ''2'') (Some ''6'') (Some ''('') mixed_store) = 500"
proof -
  have r: "letters_rx ''pil'' = Some (contains_ci ''pil'')" "letters_rx ''('' = None"
    by (simp_all add: letters_rx_def is_letter_def)
  have s1: "sort_newest (classes mixed_store)
      = [yoga_doc 9, yoga_doc 8, listed_names_doc 7, class_doc 6, class_doc 5, class_doc 4,
         class_doc 3, class_doc 2, class_doc 1]"
    by (simp add: sort_newest_def mixed_store_def created_key_class_doc created_key_yoga_doc
        created_key_listed_names_doc)
  have f: "filter (\<lambda>d. regex_match (contains_ci ''pil'') (get d ''name'')) (classes mixed_store)
      = [class_doc 1, class_doc 2, class_doc 3, class_doc 4, class_doc 5, class_doc 6,
         listed_names_doc 7]"
    by (simp add: mixed_store_def pil_matches)
  have s2: "sort_newest [class_doc 1, class_doc 2, class_doc 3, class_doc 4, class_doc 5,
        class_doc 6, listed_names_doc 7]
      = [listed_names_doc 7, class_doc 6, class_doc 5, class_doc 4, class_doc 3, class_doc 2,
         class_doc 1]"
    by (simp add: sort_newest_def created_key_class_doc created_key_listed_names_doc)
  have l: "length (classes mixed_store) = 9" by (simp add: mixed_store_def)
  from classes_page_two [where qsearch = None and st = mixed_store and rx = letters_rx]
  have 1: "get_classes letters_rx (Some ''2'') (Some ''6'') None mixed_store =
     \<lparr>status = 200,
      body = JObj [(''data'', docs [class_doc 3, class_doc 2, class_doc 1]), (''currentPage'', jint 2),
               (''totalPages'', jint 2), (''totalClasses'', jint 9)]\<rparr>"
    by (simp add: Let_def s1 l)
  from classes_page_two [where qsearch = "Some ''pil''" and s = "''pil''" and st = mixed_store
      and rx = letters_rx and m = "contains_ci ''pil''"] r(1) f s2
  have 2: "get_classes letters_rx (Some ''2'') (Some ''6'') (Some ''pil'') mixed_store =
     \<lparr>status = 200,
      body = JObj [(''data'', docs [class_doc 1]), (''currentPage'', jint 2),
               (''totalPages'', jint 2), (''totalClasses'', jint 7)]\<rparr>"
    by (simp add: Let_def)
  from classes_page_two [where qsearch = "Some ''(''" and s = "''(''" and st = mixed_store
      and rx = letters_rx] r(2)
  have 3: "status (get_classes letters_rx (Some ''2'') (Some ''6'') (Some ''('') mixed_store) = 500"
    by simp
  from 1 2 3 show ?thesis by simp
qed

subsection \<open>Registering a user twice\<close>

lemma set_role: "set_op [(''role'', JStr ''member'')] d = Inr (put ''role'' (JStr ''member'') d)"
  by (simp add: set_op_def)

text \<open>
  C5. When the users collection holds a document with the (non-empty, string) email of
  the request, \<open>existing\<close> being the first such document, \<^verbatim>\<open>POST /users\<close> answers 200,
  the collection keeps its length and no other collection changes. If \<open>existing\<close> has
  a role, it is returned as it is and the store is unchanged; if it lacks one, the
  returned document is \<open>existing\<close> with \<^verbatim>\<open>role: "member"\<close> (all other fields as
  before), and in the store that document has taken the place of \<open>existing\<close>.
\<close>

theorem register_existing_email:
  assumes "get user ''email'' = JStr e" and "e \<noteq> []"
    and "findOne (field_eq ''email'' (JStr e)) (users st) = Some existing"
  shows "let r = post_users nid user st; st' = snd r;
             upgraded = put ''role'' (JStr ''member'') existing
         in status (fst r) = 200
          \<and> length (users st') = length (users st)
          \<and> st' = st\<lparr>users := users st'\<rparr>
          \<and> (truthy (get existing ''role'') \<longrightarrow>
               body (fst r) = JObj [(''message'', JStr ''User already exists''), (''user'', JObj existing)]
               \<and> st' = st)
          \<and> (\<not> truthy (get existing ''role'') \<longrightarrow>
               body (fst r) = JObj [(''message'', JStr ''User already exists''), (''user'', JObj upgraded)]
               \<and> get upgraded ''role'' = JStr ''member''
               \<and> (\<forall>k. k \<noteq> ''role'' \<longrightarrow> get upgraded k = get existing k)
               \<and> findOne (field_eq ''email'' (JStr e)) (users st') = Some upgraded
               \<and> (\<exists>xs ys. users st = xs @ existing # ys \<and> users st' = xs @ upgraded # ys))"
proof -
  let ?up = "put ''role'' (JStr ''member'') existing"
  let ?p = "field_eq ''email'' (JStr e)"
  from assms(3) obtain xs ys where
    s: "users st = xs @ existing # ys" "\<forall>x \<in> set xs. \<not> ?p x" "?p existing"
    using findOne_split by blast
  have t: "truthy (get user ''email'')" using assms(1,2) by simp
  have pu: "?p ?up" using s(3) by (simp add: field_eq_def get_put)
  have u: "updateOne ?p (set_op [(''role'', JStr ''member'')]) (users st)
      = Inr (if ?up = existing then 0 else 1, xs @ ?up # ys)"
    using updateOne_first [where p = ?p and u = "set_op [(''role'', JStr ''member'')]"
        and xs = xs and d = existing and d' = ?up and ys = ys] s set_role [of existing]
    by simp
  show ?thesis
  proof (cases "truthy (get existing ''role'')")
    case True
    then have "post_users nid user st =
        (res_status 200 (JObj [(''message'', JStr ''User already exists''), (''user'', JObj existing)]), st)"
      using t assms(1,3) by (simp add: post_users_def)
    with True show ?thesis by (simp add: Let_def res_status_def)
  next
    case False
    then have r: "post_users nid user st =
        (res_status 200 (JObj [(''message'', JStr ''User already exists''), (''user'', JObj ?up)]),
         st\<lparr>users := xs @ ?up # ys\<rparr>)"
      using t assms(1,3) u by (simp add: post_users_def)
    have f: "findOne ?p (xs @ ?up # ys) = Some ?up"
      using s(2) pu by (simp add: findOne_first)
    have e: "\<exists>xs' ys'. users st = xs' @ existing # ys' \<and> xs @ ?up # ys = xs' @ ?up # ys'"
      using s(1) by blast
    from False r f e show ?thesis
      by (simp add: Let_def res_status_def s(1) get_put)
  qed
qed

text \<open>C5 on a store whose only user has no role.\<close>

theorem register_existing_email_witness:
  "status (fst (post_users (mk_oid hexa) [(''email'', JStr ''bob@example.com'')] users_store)) = 200
   \<and> body (fst (post_users (mk_oid hexa) [(''email'', JStr ''bob@example.com'')] users_store))
       = JObj [(''message'', JStr ''User already exists''),
               (''user'', JObj (put ''role'' (JStr ''member'') bob))]
   \<and> users (snd (post_users (mk_oid hexa) [(''email'', JStr ''bob@example.com'')] users_store))
       = [put ''role'' (JStr ''member'') bob]"
proof -
  have h1: "get [(''email'', JStr ''bob@example.com'')] ''email'' = JStr ''bob@example.com''"
    by (simp add: get_def)
  have h3: "findOne (field_eq ''email'' (JStr ''bob@example.com'')) (users users_store) = Some bob"
    by (simp add: findOne_def field_eq_def users_store_def bob_def get_def)
  have r: "\<not> truthy (get bob ''role'')" by (simp add: bob_def get_def)
  have "''bob@example.com'' \<noteq> []" by simp
  note w = register_existing_email [OF h1 this h3, of "mk_oid hexa", unfolded Let_def]
  from w have a: "status (fst (post_users (mk_oid hexa) [(''email'', JStr ''bob@example.com'')] users_store)) = 200"
    by (rule conjunct1)
  from w r have b: "body (fst (post_users (mk_oid hexa) [(''email'', JStr ''bob@example.com'')] users_store))
       = JObj [(''message'', JStr ''User already exists''),
               (''user'', JObj (put ''role'' (JStr ''member'') bob))]"
    by blast
  from w r obtain xs ys where
    c: "users users_store = xs @ bob # ys"
       "users (snd (post_users (mk_oid hexa) [(''email'', JStr ''bob@example.com'')] users_store))
          = xs @ put ''role'' (JStr ''member'') bob # ys"
    by blast
  from c(1) have "xs = [] \<and> ys = []"
    by (cases xs) (simp_all add: users_store_def)
  with a b c(2) show ?thesis by simp
qed

subsection \<open>Bookings of a user, merged with their trainers\<close>

lemma find_filter_implied:
  "(\<And>x. P x \<Longrightarrow> Q x) \<Longrightarrow> List.find P (filter Q xs) = List.find P xs"
  by (induction xs) auto

lemma map_throw_all:
  "\<forall>x \<in> set xs. \<exists>y. f x = Inr y \<Longrightarrow>
     \<exists>ys. map_throw f xs = Inr ys \<and> (\<forall>x \<in> set xs. \<forall>y. f x = Inr y \<longrightarrow> y \<in> set ys)"
proof (induction xs)
  case Nil
  then show ?case by simp
next
  case (Cons x xs)
  then obtain y where y: "f x = Inr y" by auto
  from Cons obtain ys where
    ys: "map_throw f xs = Inr ys" "\<forall>x \<in> set xs. \<forall>y. f x = Inr y \<longrightarrow> y \<in> set ys"
    by auto
  have "map_throw f (x # xs) = Inr (y # ys)" by (simp add: y ys(1))
  moreover have "\<forall>x' \<in> set (x # xs). \<forall>y'. f x' = Inr y' \<longrightarrow> y' \<in> set (y # ys)"
    using y ys(2) by auto
  ultimately show ?case by blast
qed

lemma string_equal_is_referenced:
  assumes "get b ''trainerId'' = JStr s" and "trainer_ref drv b = Inr i" and "i \<in> set is"
    and "id_string_equals (get b ''trainerId'') t"
  shows "id_in is t"
proof -
  from assms(4,1) obtain j where j: "get t ''_id'' = JOid j" "toString j = s"
    by (auto simp add: id_string_equals_def split: json.splits)
  from j(2) have "ObjectId s = Inr j" using ObjectId_toString [of j] by simp
  with assms(1,2) have "j = i" by (simp add: trainer_ref_def)
  with j(1) assms(3) show ?thesis by (simp add: id_in_def)
qed

lemma merge_booking_all:
  assumes "get b ''trainerId'' = JStr s" and "trainer_ref drv b = Inr i" and "i \<in> set is"
  shows "merge_booking (filter (id_in is) ts) b = merge_booking ts b"
proof -
  have "List.find (id_string_equals (get b ''trainerId'')) (filter (id_in is) ts)
      = List.find (id_string_equals (get b ''trainerId'')) ts"
    using string_equal_is_referenced [OF assms] by (rule find_filter_implied)
  then show ?thesis by (simp add: merge_booking_def)
qed

lemma mset_sort_newest: "mset (sort_newest col) = mset col"
  by (simp add: sort_newest_def)

text \<open>
  C6, as stated, fails. \<^verbatim>\<open>POST /payments\<close> accepts any non-empty \<^verbatim>\<open>trainerId\<close>; once
  a user has a successful booking whose \<^verbatim>\<open>trainerId\<close> is \<^verbatim>\<open>"abc"\<close>, the merge query
  for that user answers 500 instead of returning the bookings, because
  \<^verbatim>\<open>new ObjectId("abc")\<close> throws.
\<close>

theorem malformed_reference_is_500:
  "snd (post_payments 7 (mk_oid hexa) bad_payment empty_store)
     = empty_store\<lparr>bookings := [put ''_id'' (JOid (mk_oid hexa))
          (put ''createdAt'' (JDate 7) (put ''status'' (JStr ''success'') bad_payment))]\<rparr>
   \<and> status (get_bookings_user (\<lambda>v. Inl BSONError) ''uma@example.com''
        (snd (post_payments 7 (mk_oid hexa) bad_payment empty_store))) = 500"
proof -
  let ?b = "put ''_id'' (JOid (mk_oid hexa))
          (put ''createdAt'' (JDate 7) (put ''status'' (JStr ''success'') bad_payment))"
  have 1: "snd (post_payments 7 (mk_oid hexa) bad_payment empty_store)
     = empty_store\<lparr>bookings := [?b]\<rparr>"
    by (simp add: post_payments_def insertOne_def Let_def get_put ids_def empty_store_def)
       (simp add: bad_payment_def get_def)
  have g: "get ?b ''userEmail'' = JStr ''uma@example.com''" "get ?b ''status'' = JStr ''success''"
    "get ?b ''trainerId'' = JStr ''abc''"
    by (simp_all add: get_put) (simp_all add: bad_payment_def get_def)
  have 2: "user_bookings ''uma@example.com'' (empty_store\<lparr>bookings := [?b]\<rparr>) = [?b]"
    by (simp add: user_bookings_def user_filter_def field_eq_def g sort_newest_def)
  have 3: "trainer_ref (\<lambda>v. Inl BSONError) ?b = Inl BSONError"
    by (simp add: trainer_ref_def g ObjectId_def)
  show ?thesis
    by (simp add: 1 get_bookings_user_def 2 3 res_status_def Let_def)
qed

lemma bookings_user_well_formed:
  assumes "\<forall>b \<in> set (bookings st).
      get b ''userEmail'' = JStr email \<and> get b ''status'' = JStr ''success'' \<longrightarrow>
      (\<exists>s i. get b ''trainerId'' = JStr s \<and> ObjectId s = Inr i)"
  shows "\<exists>bs. get_bookings_user drv email st =
       \<lparr>status = 200,
        body = JArr (map (\<lambda>b. JObj (put ''trainerDetails''
                 (case List.find (id_string_equals (get b ''trainerId'')) (trainers st) of
                    None \<Rightarrow> JNull | Some t \<Rightarrow> JObj t) b)) bs)\<rparr>
     \<and> bs = sort_newest (filter (\<lambda>b. get b ''userEmail'' = JStr email
                \<and> get b ''status'' = JStr ''success'') (bookings st))
     \<and> mset bs = filter_mset (\<lambda>b. get b ''userEmail'' = JStr email
                \<and> get b ''status'' = JStr ''success'') (mset (bookings st))"
proof -
  let ?P = "\<lambda>b. get b ''userEmail'' = JStr email \<and> get b ''status'' = JStr ''success''"
  let ?bs = "sort_newest (filter ?P (bookings st))"
  let ?m = "\<lambda>b. JObj (put ''trainerDetails''
                 (case List.find (id_string_equals (get b ''trainerId'')) (trainers st) of
                    None \<Rightarrow> JNull | Some t \<Rightarrow> JObj t) b)"
  have "user_filter email = ?P"
    by (rule ext) (simp add: user_filter_def field_eq_def)
  then have ub: "user_bookings email st = ?bs"
    by (simp add: user_bookings_def)
  have m: "mset ?bs = filter_mset ?P (mset (bookings st))"
    by (simp add: mset_sort_newest)
  have str: "\<forall>b \<in> set ?bs. \<exists>s i. get b ''trainerId'' = JStr s \<and> trainer_ref drv b = Inr i"
  proof
    fix b assume "b \<in> set ?bs"
    then have "b \<in> set (bookings st)" "?P b" by (simp_all add: set_sort_newest)
    with assms obtain s i where "get b ''trainerId'' = JStr s" "ObjectId s = Inr i" by blast
    then show "\<exists>s i. get b ''trainerId'' = JStr s \<and> trainer_ref drv b = Inr i"
      by (simp add: trainer_ref_def)
  qed
  then have ok: "\<forall>b \<in> set ?bs. \<exists>i. trainer_ref drv b = Inr i" by blast
  from map_throw_all [OF ok] obtain trainerIds where
    t: "map_throw (trainer_ref drv) ?bs = Inr trainerIds"
       "\<forall>b \<in> set ?bs. \<forall>i. trainer_ref drv b = Inr i \<longrightarrow> i \<in> set trainerIds"
    by blast
  have mb: "map (merge_booking (filter (id_in trainerIds) (trainers st))) ?bs
      = map (merge_booking (trainers st)) ?bs"
  proof (rule map_cong [OF refl])
    fix b assume b: "b \<in> set ?bs"
    with str obtain s i where s: "get b ''trainerId'' = JStr s" and i: "trainer_ref drv b = Inr i"
      by blast
    from b i t(2) have "i \<in> set trainerIds" by blast
    from merge_booking_all [OF s i this]
    show "merge_booking (filter (id_in trainerIds) (trainers st)) b = merge_booking (trainers st) b" .
  qed
  have r: "get_bookings_user drv email st = \<lparr>status = 200, body = JArr (map ?m ?bs)\<rparr>"
  proof (cases "?bs = []")
    case True
    then show ?thesis by (simp add: get_bookings_user_def ub res_json_def)
  next
    case False
    then have "get_bookings_user drv email st = res_json (docs (map (merge_booking (trainers st)) ?bs))"
      by (simp add: get_bookings_user_def ub t(1) mb Let_def)
    also have "\<dots> = \<lparr>status = 200, body = JArr (map ?m ?bs)\<rparr>"
      by (simp add: res_json_def docs_def merge_booking_def comp_def)
    finally show ?thesis .
  qed
  from r m show ?thesis by blast
qed

lemma map_throw_fail:
  "x \<in> set xs \<Longrightarrow> f x = Inl e \<Longrightarrow> \<exists>e'. map_throw f xs = Inl e'"
proof (induction xs)
  case Nil
  then show ?case by simp
next
  case (Cons y ys)
  show ?case
  proof (cases "f y")
    case (Inl a)
    then show ?thesis by simp
  next
    case (Inr b)
    with Cons show ?thesis by (cases "x = y") auto
  qed
qed

lemma bookings_user_bad_reference:
  "(\<exists>b \<in> set (bookings st). get b ''userEmail'' = JStr email \<and> get b ''status'' = JStr ''success''
       \<and> (\<exists>s. get b ''trainerId'' = JStr s \<and> ObjectId s = Inl e)) \<longrightarrow>
   status (get_bookings_user drv email st) = 500"
proof
  assume "\<exists>b \<in> set (bookings st). get b ''userEmail'' = JStr email \<and> get b ''status'' = JStr ''success''
       \<and> (\<exists>s. get b ''trainerId'' = JStr s \<and> ObjectId s = Inl e)"
  then obtain b s where b: "b \<in> set (bookings st)" "get b ''userEmail'' = JStr email"
    "get b ''status'' = JStr ''success''" "get b ''trainerId'' = JStr s" "ObjectId s = Inl e"
    by blast
  have m: "b \<in> set (user_bookings email st)"
    using b(1,2,3) by (simp add: user_bookings_def set_sort_newest user_filter_def field_eq_def)
  have "trainer_ref drv b = Inl e" using b(4,5) by (simp add: trainer_ref_def)
  with m map_throw_fail [where f = "trainer_ref drv" and x = b and xs = "user_bookings email st" and e = e]
  obtain e' where
    t: "map_throw (trainer_ref drv) (user_bookings email st) = Inl e'" by blast
  from m have "user_bookings email st \<noteq> []" by auto
  with t show "status (get_bookings_user drv email st) = 500"
    by (simp add: get_bookings_user_def Let_def res_status_def)
qed

text \<open>
  C6, amended. For every user email such that each successful booking of that user has
  as \<^verbatim>\<open>trainerId\<close> a string of 24 hexadecimal digits, the merge query answers 200 with
  exactly the bookings whose \<^verbatim>\<open>userEmail\<close> is that email and whose \<^verbatim>\<open>status\<close> is
  \<^verbatim>\<open>"success"\<close> (newest first, each as often as it is in the collection), each
  extended with \<^verbatim>\<open>trainerDetails\<close>: the first document of the trainers collection whose
  \<^verbatim>\<open>_id.toString()\<close> equals the booking's \<^verbatim>\<open>trainerId\<close>, or \<^verbatim>\<open>null\<close> when there is
  none. When one of these bookings has as \<^verbatim>\<open>trainerId\<close> a string that the
  \<^verbatim>\<open>ObjectId\<close> constructor refuses, the answer is 500.
\<close>

theorem bookings_user_merge:
  "((\<forall>b \<in> set (bookings st).
        get b ''userEmail'' = JStr email \<and> get b ''status'' = JStr ''success'' \<longrightarrow>
        (\<exists>s i. get b ''trainerId'' = JStr s \<and> ObjectId s = Inr i)) \<longrightarrow>
    (\<exists>bs. get_bookings_user drv email st =
       \<lparr>status = 200,
        body = JArr (map (\<lambda>b. JObj (put ''trainerDetails''
                 (case List.find (id_string_equals (get b ''trainerId'')) (trainers st) of
                    None \<Rightarrow> JNull | Some t \<Rightarrow> JObj t) b)) bs)\<rparr>
     \<and> bs = sort_newest (filter (\<lambda>b. get b ''userEmail'' = JStr email
                \<and> get b ''status'' = JStr ''success'') (bookings st))
     \<and> mset bs = filter_mset (\<lambda>b. get b ''userEmail'' = JStr email
                \<and> get b ''status'' = JStr ''success'') (mset (bookings st))))
   \<and> ((\<exists>b \<in> set (bookings st). get b ''userEmail'' = JStr email \<and> get b ''status'' = JStr ''success''
         \<and> (\<exists>s. get b ''trainerId'' = JStr s \<and> ObjectId s = Inl e)) \<longrightarrow>
    status (get_bookings_user drv email st) = 500)"
  by (rule conjI [OF impI [OF bookings_user_well_formed] bookings_user_bad_reference])

lemma toString_hex:
  "toString (mk_oid hexa) = hexa" "toString (mk_oid hexb) = hexb"
  by (simp_all add: mk_oid_inverse canonical_hexa)

text \<open>The amended C6 on a store with two bookings of one user, the newer one for the
  sample trainer and the older one for a trainer that does not exist; and on a store in
  which one booking of the user has the reference \<^verbatim>\<open>abc\<close>.\<close>

theorem bookings_user_merge_witness:
  "get_bookings_user (\<lambda>v. Inl BSONError) ''uma@example.com'' bookings_store =
     \<lparr>status = 200,
      body = JArr [JObj (put ''trainerDetails'' (JObj sample_application) good_booking),
                   JObj (put ''trainerDetails'' JNull dangling_booking)]\<rparr>
   \<and> status (get_bookings_user (\<lambda>v. Inl BSONError) ''uma@example.com'' bad_ref_store) = 500"
proof -
  have o: "ObjectId hexc = Inr (mk_oid hexc)"
    by (simp add: ObjectId_def is_hex_def lower_hex_def hexc_def)
  have g: "get good_booking ''userEmail'' = JStr ''uma@example.com''"
    "get good_booking ''status'' = JStr ''success''" "get good_booking ''trainerId'' = JStr hexb"
    "get dangling_booking ''userEmail'' = JStr ''uma@example.com''"
    "get dangling_booking ''status'' = JStr ''success''"
    "get dangling_booking ''trainerId'' = JStr hexc"
    "get good_booking ''createdAt'' = JDate 9" "get dangling_booking ''createdAt'' = JDate 3"
    by (simp_all add: good_booking_def dangling_booking_def get_def)
  have h: "\<forall>b \<in> set (bookings bookings_store).
      get b ''userEmail'' = JStr ''uma@example.com'' \<and> get b ''status'' = JStr ''success'' \<longrightarrow>
      (\<exists>s i. get b ''trainerId'' = JStr s \<and> ObjectId s = Inr i)"
    using o ObjectId_hexa(2) by (simp add: bookings_store_def g)
  have s: "sort_newest (filter (\<lambda>b. get b ''userEmail'' = JStr ''uma@example.com''
                \<and> get b ''status'' = JStr ''success'') (bookings bookings_store))
      = [good_booking, dangling_booking]"
    by (simp add: bookings_store_def g sort_newest_def created_key_def)
  have hc: "hexb \<noteq> hexc" by (simp add: hexb_def hexc_def)
  have t: "List.find (id_string_equals (JStr hexb)) (trainers bookings_store) = Some sample_application"
    "List.find (id_string_equals (JStr hexc)) (trainers bookings_store) = None"
    using hc by (simp_all add: bookings_store_def sample_store_def id_string_equals_def
        sample_application_def get_def toString_hex)
  have bad: "\<exists>b \<in> set (bookings bad_ref_store).
      get b ''userEmail'' = JStr ''uma@example.com'' \<and> get b ''status'' = JStr ''success''
      \<and> (\<exists>s. get b ''trainerId'' = JStr s \<and> ObjectId s = Inl BSONError)"
    by (simp add: bad_ref_store_def bad_booking_def get_def ObjectId_def)
  from bookings_user_merge [where st = bookings_store and email = "''uma@example.com''"
      and drv = "\<lambda>v. Inl BSONError"] h
  have 1: "\<exists>bs. get_bookings_user (\<lambda>v. Inl BSONError) ''uma@example.com'' bookings_store =
       \<lparr>status = 200,
        body = JArr (map (\<lambda>b. JObj (put ''trainerDetails''
                 (case List.find (id_string_equals (get b ''trainerId'')) (trainers bookings_store) of
                    None \<Rightarrow> JNull | Some t \<Rightarrow> JObj t) b)) bs)\<rparr>
     \<and> bs = sort_newest (filter (\<lambda>b. get b ''userEmail'' = JStr ''uma@example.com''
                \<and> get b ''status'' = JStr ''success'') (bookings bookings_store))"
    by blast
  from bookings_user_merge [where st = bad_ref_store and email = "''uma@example.com''"
      and e = BSONError and drv = "\<lambda>v. Inl BSONError"] bad
  have 2: "status (get_bookings_user (\<lambda>v. Inl BSONError) ''uma@example.com'' bad_ref_store) = 500"
    by blast
  from 1 s t g 2 show ?thesis by simp
qed

subsection \<open>Creating and then listing\<close>

lemma digit10_char_of: "k < 10 \<Longrightarrow> digit10 (char_of (48 + k)) = Some k"
  by (simp add: digit10_def)

lemma digit10_plain:
  "digit10 c = Some d \<Longrightarrow>
     \<not> is_space c \<and> c \<noteq> CHR ''-'' \<and> c \<noteq> CHR ''+'' \<and> c \<noteq> CHR ''x'' \<and> c \<noteq> CHR ''X''"
  by (auto simp add: digit10_def is_space_def Let_def split: if_splits)

lemma dec_digits: "\<forall>c \<in> set (dec n). \<exists>d. digit10 c = Some d"
proof (induction n rule: dec.induct)
  case (1 n)
  show ?case
  proof (cases "n < 10")
    case True
    then show ?thesis by (simp add: dec.simps [of n] digit10_char_of)
  next
    case False
    with 1 show ?thesis by (simp add: dec.simps [of n] digit10_char_of)
  qed
qed

lemma dec_nonempty: "dec n \<noteq> []"
  by (simp add: dec.simps [of n])

lemma leading_digits_append:
  "leading_digits digit10 (cs @ [char_of (48 + k)]) = leading_digits digit10 cs @ [k]"
  if "\<forall>c \<in> set cs. \<exists>d. digit10 c = Some d" and "k < 10"
  using that by (induction cs) (auto simp add: digit10_char_of)

lemma radix_val_snoc: "radix_val r (ds @ [d]) = r * radix_val r ds + d"
  by (simp add: radix_val_def)

lemma dec_value:
  "leading_digits digit10 (dec n) \<noteq> [] \<and> radix_val 10 (leading_digits digit10 (dec n)) = n"
proof (induction n rule: dec.induct)
  case (1 n)
  show ?case
  proof (cases "n < 10")
    case True
    then show ?thesis by (simp add: dec.simps [of n] digit10_char_of radix_val_def)
  next
    case False
    with 1 have ih: "radix_val 10 (leading_digits digit10 (dec (n div 10))) = n div 10" by simp
    have "leading_digits digit10 (dec n)
        = leading_digits digit10 (dec (n div 10)) @ [n mod 10]"
      using False by (simp add: dec.simps [of n] leading_digits_append dec_digits)
    then show ?thesis by (simp add: radix_val_snoc ih)
  qed
qed

lemma take2_0x: "take 2 s = [a, b] \<Longrightarrow> b \<in> set s"
proof -
  assume t: "take 2 s = [a, b]"
  have "b \<in> set (take 2 s)" by (simp add: t)
  then show ?thesis by (rule in_set_takeD)
qed

lemma skip_space_digit: "digit10 c = Some d \<Longrightarrow> skip_space (c # cs) = c # cs"
  by (auto simp add: digit10_def is_space_def wide_space_def Let_def split: if_splits)

lemma parseInt_dec: "parseInt (dec n) = Some (int n)"
proof -
  obtain c cs where s: "dec n = c # cs" using dec_nonempty [of n] by (cases "dec n") auto
  from dec_digits [of n] s obtain d where d: "digit10 c = Some d" by auto
  then have c: "\<not> is_space c" "c \<noteq> CHR ''-''" "c \<noteq> CHR ''+''"
    using digit10_plain by blast+
  have 1: "skip_space (dec n) = dec n"
    using skip_space_digit [OF d, of cs] by (simp only: s)
  have 2: "(case dec n of [] \<Rightarrow> False | c # r \<Rightarrow> c = CHR ''-'') = False"
    using c(2) by (simp add: s)
  have 3: "(case dec n of [] \<Rightarrow> [] | c # r \<Rightarrow> if c = CHR ''-'' \<or> c = CHR ''+'' then r else dec n)
      = dec n"
    using c(2,3) by (simp add: s)
  have "CHR ''x'' \<notin> set (dec n)" "CHR ''X'' \<notin> set (dec n)"
    using dec_digits [of n] digit10_plain by blast+
  then have 4: "take 2 (dec n) \<noteq> ''0x''" "take 2 (dec n) \<noteq> ''0X''"
    using take2_0x [of "dec n" "CHR ''0''" "CHR ''x''"] take2_0x [of "dec n" "CHR ''0''" "CHR ''X''"]
    by auto
  show ?thesis
    unfolding parseInt_def Let_def 1 2 3
    using 4 dec_value [of n] by simp
qed

lemma parse_or_dec: "0 < n \<Longrightarrow> parse_or (Some (dec n)) dflt = int n"
  by (simp add: parse_or_def parseInt_dec)

lemma page_exists:
  assumes "d \<in> set xs"
  shows "\<exists>p. 0 < p \<and> d \<in> set (take 6 (drop ((p - 1) * 6) xs))"
proof -
  from assms obtain i where i: "i < length xs" "xs ! i = d" by (auto simp add: in_set_conv_nth)
  define k where "k = i div 6 * 6"
  define j where "j = i mod 6"
  have kj: "k + j = i" by (simp add: k_def j_def)
  have j6: "j < 6" by (simp add: j_def)
  have jl: "j < length (drop k xs)" using i(1) kj by simp
  have "take 6 (drop k xs) ! j = drop k xs ! j" using j6 by simp
  also have "\<dots> = xs ! (k + j)" using i(1) kj by (simp add: nth_drop)
  finally have "take 6 (drop k xs) ! j = d" using kj i(2) by simp
  moreover have "j < length (take 6 (drop k xs))" using j6 jl by simp
  ultimately have "d \<in> set (take 6 (drop k xs))" by (metis nth_mem)
  then have "d \<in> set (take 6 (drop ((Suc (i div 6) - 1) * 6) xs))" by (simp add: k_def)
  then show ?thesis by (intro exI [of _ "Suc (i div 6)"]) simp
qed

lemma skip_limit_page:
  assumes "0 < p"
  shows "skip_limit ((int p - 1) * 6) 6 xs = Inr (take 6 (drop ((p - 1) * 6) xs))"
proof -
  from assms obtain q where q: "p = Suc q" by (cases p) auto
  have e: "(int p - 1) * 6 = int (q * 6)" by (simp add: q)
  have "skip_limit (int (q * 6)) 6 xs = Inr (take 6 (drop (q * 6) xs))"
    unfolding skip_limit_def by (simp only: nat_int) simp
  then show ?thesis by (simp only: e) (simp add: q)
qed

lemma listed_docs: "d \<in> set ds \<Longrightarrow> listed d (res_json (docs ds))"
  by (simp add: listed_def res_json_def docs_def)

lemma listed_in_docs:
  "get fs key = docs ds \<Longrightarrow> d \<in> set ds \<Longrightarrow> listed_in key d (res_json (JObj fs))"
  by (simp add: listed_in_def res_json_def docs_def)

lemma create_user:
  "get user ''email'' = JStr e \<and> e \<noteq> []
     \<and> findOne (field_eq ''email'' (JStr e)) (users st) = None
     \<and> get user ''_id'' = JUndefined \<and> JOid nid \<notin> set (ids (users st)) \<longrightarrow>
   status (fst (post_users nid user st)) = 201
   \<and> listed (put ''_id'' (JOid nid) (put ''role'' (JStr ''member'') user))
        (get_users (snd (post_users nid user st)))"
proof
  assume a: "get user ''email'' = JStr e \<and> e \<noteq> []
     \<and> findOne (field_eq ''email'' (JStr e)) (users st) = None
     \<and> get user ''_id'' = JUndefined \<and> JOid nid \<notin> set (ids (users st))"
  let ?d = "put ''_id'' (JOid nid) (put ''role'' (JStr ''member'') user)"
  have i: "insertOne nid (put ''role'' (JStr ''member'') user) (users st)
      = Inr (JOid nid, users st @ [?d])"
    using a by (simp add: insertOne_fresh get_put)
  have r: "post_users nid user st =
      (res_status 201 (JObj [(''message'', JStr ''User registered successfully''),
         (''insertedId'', JOid nid)]), st\<lparr>users := users st @ [?d]\<rparr>)"
    using a i by (simp add: post_users_def)
  show "status (fst (post_users nid user st)) = 201
     \<and> listed ?d (get_users (snd (post_users nid user st)))"
    by (simp add: r res_status_def get_users_def listed_docs)
qed

lemma create_testimonial:
  "truthy (get testimonial ''name'') \<and> truthy (get testimonial ''review'')
     \<and> get testimonial ''_id'' = JUndefined \<and> JOid nid \<notin> set (ids (testimonials st)) \<longrightarrow>
   status (fst (post_testimonials now nid testimonial st)) = 201
   \<and> listed (put ''_id'' (JOid nid) (put ''createdAt'' (JDate now) testimonial))
        (get_testimonials (snd (post_testimonials now nid testimonial st)))"
proof
  assume a: "truthy (get testimonial ''name'') \<and> truthy (get testimonial ''review'')
     \<and> get testimonial ''_id'' = JUndefined \<and> JOid nid \<notin> set (ids (testimonials st))"
  let ?d = "put ''_id'' (JOid nid) (put ''createdAt'' (JDate now) testimonial)"
  have i: "insertOne nid (put ''createdAt'' (JDate now) testimonial) (testimonials st)
      = Inr (JOid nid, testimonials st @ [?d])"
    using a by (simp add: insertOne_fresh get_put)
  have r: "post_testimonials now nid testimonial st =
      (res_status 201 (JObj [(''message'', JStr ''Testimonial added successfully''),
         (''id'', JOid nid)]), st\<lparr>testimonials := testimonials st @ [?d]\<rparr>)"
    using a i by (simp add: post_testimonials_def)
  show "status (fst (post_testimonials now nid testimonial st)) = 201
     \<and> listed ?d (get_testimonials (snd (post_testimonials now nid testimonial st)))"
    by (simp add: r res_status_def get_testimonials_def listed_docs set_sort_newest)
qed

lemma create_class:
  "truthy (get newClass ''name'') \<and> truthy (get newClass ''image'')
     \<and> truthy (get newClass ''details'')
     \<and> get newClass ''_id'' = JUndefined \<and> JOid nid \<notin> set (ids (classes st)) \<longrightarrow>
   status (fst (post_classes now nid newClass st)) = 201
   \<and> (\<exists>q. listed_in ''data''
          (put ''_id'' (JOid nid) (put ''totalBookings'' (jint 0) (put ''createdAt'' (JDate now) newClass)))
          (get_classes rx (Some q) None None (snd (post_classes now nid newClass st))))"
proof
  assume a: "truthy (get newClass ''name'') \<and> truthy (get newClass ''image'')
     \<and> truthy (get newClass ''details'')
     \<and> get newClass ''_id'' = JUndefined \<and> JOid nid \<notin> set (ids (classes st))"
  let ?d = "put ''_id'' (JOid nid) (put ''totalBookings'' (jint 0) (put ''createdAt'' (JDate now) newClass))"
  let ?cs = "classes st @ [?d]"
  have i: "insertOne nid (put ''totalBookings'' (jint 0) (put ''createdAt'' (JDate now) newClass)) (classes st)
      = Inr (JOid nid, ?cs)"
    using a by (simp add: insertOne_fresh get_put)
  have r: "post_classes now nid newClass st =
      (res_status 201 (JObj [(''message'', JStr ''Class added successfully''),
         (''insertedId'', JOid nid)]), st\<lparr>classes := ?cs\<rparr>)"
    using a i by (simp add: post_classes_def)
  have "?d \<in> set (sort_newest ?cs)" by (simp add: set_sort_newest)
  from page_exists [OF this] obtain p where
    p: "0 < p" "?d \<in> set (take 6 (drop ((p - 1) * 6) (sort_newest ?cs)))" by blast
  have g: "get_classes rx (Some (dec p)) None None (st\<lparr>classes := ?cs\<rparr>) =
      res_json (JObj [(''data'', docs (take 6 (drop ((p - 1) * 6) (sort_newest ?cs)))),
        (''currentPage'', jint (int p)),
        (''totalPages'', jint (total_pages (length ?cs) 6)),
        (''totalClasses'', jint (int (length ?cs)))])"
    using p(1) skip_limit_page [OF p(1), of "sort_newest ?cs"]
    by (simp add: get_classes_def Let_def parse_or_dec class_query_def)
       (simp add: parse_or_def)
  have "listed_in ''data'' ?d (get_classes rx (Some (dec p)) None None (st\<lparr>classes := ?cs\<rparr>))"
    unfolding g by (rule listed_in_docs [OF _ p(2)]) (simp add: get_def)
  then have "\<exists>q. listed_in ''data'' ?d (get_classes rx (Some q) None None (st\<lparr>classes := ?cs\<rparr>))"
    by blast
  then show "status (fst (post_classes now nid newClass st)) = 201
     \<and> (\<exists>q. listed_in ''data'' ?d
            (get_classes rx (Some q) None None (snd (post_classes now nid newClass st))))"
    by (simp add: r res_status_def)
qed

lemma create_forum_post:
  "get post ''_id'' = JUndefined \<and> JOid nid \<notin> set (ids (forum st)) \<longrightarrow>
   status (fst (post_forum nid post st)) = 200
   \<and> (\<exists>q. listed_in ''posts'' (put ''_id'' (JOid nid) post)
          (get_forum (Some q) (snd (post_forum nid post st))))"
proof
  assume a: "get post ''_id'' = JUndefined \<and> JOid nid \<notin> set (ids (forum st))"
  let ?d = "put ''_id'' (JOid nid) post"
  let ?fs = "forum st @ [?d]"
  have i: "insertOne nid post (forum st) = Inr (JOid nid, ?fs)"
    using a by (simp add: insertOne_fresh)
  have r: "post_forum nid post st =
      (res_json (JObj [(''success'', JBool True), (''message'', JStr ''Forum post added!'')]),
       st\<lparr>forum := ?fs\<rparr>)"
    using i by (simp add: post_forum_def)
  have "?d \<in> set (sort_newest ?fs)" by (simp add: set_sort_newest)
  from page_exists [OF this] obtain p where
    p: "0 < p" "?d \<in> set (take 6 (drop ((p - 1) * 6) (sort_newest ?fs)))" by blast
  have g: "get_forum (Some (dec p)) (st\<lparr>forum := ?fs\<rparr>) =
      res_json (JObj [(''posts'', docs (take 6 (drop ((p - 1) * 6) (sort_newest ?fs)))),
        (''totalPages'', jint (total_pages (length ?fs) 6)),
        (''currentPage'', jint (int p))])"
    using p(1) skip_limit_page [OF p(1), of "sort_newest ?fs"]
    by (simp add: get_forum_def Let_def parse_or_dec)
  have "listed_in ''posts'' ?d (get_forum (Some (dec p)) (st\<lparr>forum := ?fs\<rparr>))"
    unfolding g by (rule listed_in_docs [OF _ p(2)]) (simp add: get_def)
  then have "\<exists>q. listed_in ''posts'' ?d (get_forum (Some q) (st\<lparr>forum := ?fs\<rparr>))"
    by blast
  then show "status (fst (post_forum nid post st)) = 200
     \<and> (\<exists>q. listed_in ''posts'' ?d (get_forum (Some q) (snd (post_forum nid post st))))"
    by (simp add: r res_json_def)
qed

lemma create_review:
  "get review ''_id'' = JUndefined \<and> JOid nid \<notin> set (ids (reviews st)) \<longrightarrow>
   status (fst (post_reviews now nid review st)) = 200
   \<and> listed (put ''_id'' (JOid nid) (put ''createdAt'' (JDate now) review))
        (get_reviews (snd (post_reviews now nid review st)))"
proof
  assume a: "get review ''_id'' = JUndefined \<and> JOid nid \<notin> set (ids (reviews st))"
  let ?d = "put ''_id'' (JOid nid) (put ''createdAt'' (JDate now) review)"
  have i: "insertOne nid (put ''createdAt'' (JDate now) review) (reviews st)
      = Inr (JOid nid, reviews st @ [?d])"
    using a by (simp add: insertOne_fresh get_put)
  have r: "post_reviews now nid review st =
      (res_json (JObj [(''success'', JBool True), (''message'', JStr ''Review submitted successfully'')]),
       st\<lparr>reviews := reviews st @ [?d]\<rparr>)"
    using i by (simp add: post_reviews_def)
  show "status (fst (post_reviews now nid review st)) = 200
     \<and> listed ?d (get_reviews (snd (post_reviews now nid review st)))"
    by (simp add: r get_reviews_def listed_docs set_sort_newest) (simp add: res_json_def)
qed

lemma create_subscriber:
  "truthy (get reqbody ''name'') \<and> get reqbody ''email'' = JStr e \<and> e \<noteq> []
     \<and> findOne (field_eq ''email'' (JStr e)) (subscriber st) = None
     \<and> JOid nid \<notin> set (ids (subscriber st)) \<longrightarrow>
   status (fst (post_subscribe now nid reqbody st)) = 200
   \<and> listed (put ''_id'' (JOid nid)
          [(''name'', get reqbody ''name''), (''email'', JStr e), (''createdAt'', JDate now)])
        (get_subscribers (snd (post_subscribe now nid reqbody st)))"
proof
  assume a: "truthy (get reqbody ''name'') \<and> get reqbody ''email'' = JStr e \<and> e \<noteq> []
     \<and> findOne (field_eq ''email'' (JStr e)) (subscriber st) = None
     \<and> JOid nid \<notin> set (ids (subscriber st))"
  let ?s = "[(''name'', get reqbody ''name''), (''email'', JStr e), (''createdAt'', JDate now)]"
  let ?d = "put ''_id'' (JOid nid) ?s"
  have "get ?s ''_id'' = JUndefined" by (simp add: get_def)
  then have i: "insertOne nid ?s (subscriber st) = Inr (JOid nid, subscriber st @ [?d])"
    using a by (simp add: insertOne_fresh)
  have r: "post_subscribe now nid reqbody st =
      (res_json (JObj [(''success'', JBool True), (''message'', JStr ''Subscription successful'')]),
       st\<lparr>subscriber := subscriber st @ [?d]\<rparr>)"
    using a i by (simp add: post_subscribe_def Let_def)
  show "status (fst (post_subscribe now nid reqbody st)) = 200
     \<and> listed ?d (get_subscribers (snd (post_subscribe now nid reqbody st)))"
    by (simp add: r get_subscribers_def listed_docs set_sort_newest) (simp add: res_json_def)
qed

lemma create_booking:
  "truthy (get payment ''userEmail'') \<and> get payment ''trainerId'' = JStr tid \<and> tid \<noteq> []
     \<and> get payment ''_id'' = JUndefined \<and> JOid nid \<notin> set (ids (bookings st)) \<longrightarrow>
   status (fst (post_payments now nid payment st)) = 201
   \<and> listed (put ''_id'' (JOid nid)
          (put ''createdAt'' (JDate now) (put ''status'' (JStr ''success'') payment)))
        (get_bookings_trainer tid (snd (post_payments now nid payment st)))"
proof
  assume a: "truthy (get payment ''userEmail'') \<and> get payment ''trainerId'' = JStr tid \<and> tid \<noteq> []
     \<and> get payment ''_id'' = JUndefined \<and> JOid nid \<notin> set (ids (bookings st))"
  let ?b = "put ''createdAt'' (JDate now) (put ''status'' (JStr ''success'') payment)"
  let ?d = "put ''_id'' (JOid nid) ?b"
  have i: "insertOne nid ?b (bookings st) = Inr (JOid nid, bookings st @ [?d])"
    using a by (simp add: insertOne_fresh get_put)
  have r: "post_payments now nid payment st =
      (res_status 201 (JObj [(''message'', JStr ''Payment & booking saved successfully''),
         (''id'', JOid nid)]), st\<lparr>bookings := bookings st @ [?d]\<rparr>)"
    using a i by (simp add: post_payments_def)
  have "field_eq ''trainerId'' (JStr tid) ?d"
    using a by (simp add: field_eq_def get_put)
  then show "status (fst (post_payments now nid payment st)) = 201
     \<and> listed ?d (get_bookings_trainer tid (snd (post_payments now nid payment st)))"
    by (simp add: r res_status_def get_bookings_trainer_def listed_docs)
qed

lemma create_application:
  "JOid nid \<notin> set (ids (trainers st)) \<longrightarrow>
   status (fst (post_trainers_apply rt now nid trainer st)) = 200
   \<and> listed (put ''_id'' (JOid nid) (newTrainer rt now trainer))
        (get_trainers (snd (post_trainers_apply rt now nid trainer st)))"
proof
  assume a: "JOid nid \<notin> set (ids (trainers st))"
  let ?d = "put ''_id'' (JOid nid) (newTrainer rt now trainer)"
  have i: "insertOne nid (newTrainer rt now trainer) (trainers st)
      = Inr (JOid nid, trainers st @ [?d])"
    using a by (simp add: insertOne_fresh get_newTrainer)
  have r: "post_trainers_apply rt now nid trainer st =
      (res_json (JObj [(''success'', JBool True), (''insertedId'', JOid nid)]),
       st\<lparr>trainers := trainers st @ [?d]\<rparr>)"
    using i by (simp add: post_trainers_apply_def)
  show "status (fst (post_trainers_apply rt now nid trainer st)) = 200
     \<and> listed ?d (get_trainers (snd (post_trainers_apply rt now nid trainer st)))"
    by (simp add: r get_trainers_def listed_docs set_sort_newest) (simp add: res_json_def)
qed

text \<open>
  C4, as stated, fails: \<^verbatim>\<open>POST /forum\<close> answers a valid create request with 200, not
  201 (it answers with \<^verbatim>\<open>res.json\<close> and never sets a status). The same holds for
  \<^verbatim>\<open>POST /reviews\<close>, \<^verbatim>\<open>POST /newsletter/subscribe\<close> and \<^verbatim>\<open>POST /trainers/apply\<close>.
\<close>

theorem forum_create_is_200:
  "status (fst (post_forum (mk_oid hexa) [(''title'', JStr ''Hello'')] empty_store)) = 200"
  by (simp add: post_forum_def insertOne_def Let_def get_put ids_def empty_store_def res_json_def
      get_def)

text \<open>
  C4, amended. For a create request whose required fields are present and non-empty and
  whose insert the store accepts (the body has no \<^verbatim>\<open>_id\<close>, the generated identifier is
  new to the collection): Users (email not yet registered), Testimonials, Classes and
  Bookings answer 201; Forum, Reviews, Subscribers (email not yet subscribed) and the
  trainer application answer 200; and in each case the stored document (the body with
  the fields the handler sets and the identifier) is returned afterwards by the list
  operation of its collection: \<^verbatim>\<open>GET /users\<close>, \<^verbatim>\<open>/testimonials\<close>, \<^verbatim>\<open>/classes\<close> on some
  page, \<^verbatim>\<open>/forum\<close> on some page, \<^verbatim>\<open>/reviews\<close>, \<^verbatim>\<open>/newsletter/subscribers\<close>,
  \<^verbatim>\<open>/bookings/trainer/:trainerId\<close> for the booking's (string) trainer reference, and
  \<^verbatim>\<open>/trainers\<close>.
\<close>

theorem create_then_list:
  "(get user ''email'' = JStr e \<and> e \<noteq> []
      \<and> findOne (field_eq ''email'' (JStr e)) (users st) = None
      \<and> get user ''_id'' = JUndefined \<and> JOid nid \<notin> set (ids (users st)) \<longrightarrow>
    status (fst (post_users nid user st)) = 201
    \<and> listed (put ''_id'' (JOid nid) (put ''role'' (JStr ''member'') user))
         (get_users (snd (post_users nid user st))))
   \<and> (truthy (get testimonial ''name'') \<and> truthy (get testimonial ''review'')
      \<and> get testimonial ''_id'' = JUndefined \<and> JOid nid \<notin> set (ids (testimonials st)) \<longrightarrow>
    status (fst (post_testimonials now nid testimonial st)) = 201
    \<and> listed (put ''_id'' (JOid nid) (put ''createdAt'' (JDate now) testimonial))
         (get_testimonials (snd (post_testimonials now nid testimonial st))))
   \<and> (truthy (get newClass ''name'') \<and> truthy (get newClass ''image'')
      \<and> truthy (get newClass ''details'')
      \<and> get newClass ''_id'' = JUndefined \<and> JOid nid \<notin> set (ids (classes st)) \<longrightarrow>
    status (fst (post_classes now nid newClass st)) = 201
    \<and> (\<exists>q. listed_in ''data''
           (put ''_id'' (JOid nid) (put ''totalBookings'' (jint 0) (put ''createdAt'' (JDate now) newClass)))
           (get_classes rx (Some q) None None (snd (post_classes now nid newClass st)))))
   \<and> (get post ''_id'' = JUndefined \<and> JOid nid \<notin> set (ids (forum st)) \<longrightarrow>
    status (fst (post_forum nid post st)) = 200
    \<and> (\<exists>q. listed_in ''posts'' (put ''_id'' (JOid nid) post)
           (get_forum (Some q) (snd (post_forum nid post st)))))
   \<and> (get review ''_id'' = JUndefined \<and> JOid nid \<notin> set (ids (reviews st)) \<longrightarrow>
    status (fst (post_reviews now nid review st)) = 200
    \<and> listed (put ''_id'' (JOid nid) (put ''createdAt'' (JDate now) review))
         (get_reviews (snd (post_reviews now nid review st))))
   \<and> (truthy (get reqbody ''name'') \<and> get reqbody ''email'' = JStr se \<and> se \<noteq> []
      \<and> findOne (field_eq ''email'' (JStr se)) (subscriber st) = None
      \<and> JOid nid \<notin> set (ids (subscriber st)) \<longrightarrow>
    status (fst (post_subscribe now nid reqbody st)) = 200
    \<and> listed (put ''_id'' (JOid nid)
           [(''name'', get reqbody ''name''), (''email'', JStr se), (''createdAt'', JDate now)])
         (get_subscribers (snd (post_subscribe now nid reqbody st))))
   \<and> (truthy (get payment ''userEmail'') \<and> get payment ''trainerId'' = JStr tid \<and> tid \<noteq> []
      \<and> get payment ''_id'' = JUndefined \<and> JOid nid \<notin> set (ids (bookings st)) \<longrightarrow>
    status (fst (post_payments now nid payment st)) = 201
    \<and> listed (put ''_id'' (JOid nid)
           (put ''createdAt'' (JDate now) (put ''status'' (JStr ''success'') payment)))
         (get_bookings_trainer tid (snd (post_payments now nid payment st))))
   \<and> (JOid nid \<notin> set (ids (trainers st)) \<longrightarrow>
    status (fst (post_trainers_apply rt now nid trainer st)) = 200
    \<and> listed (put ''_id'' (JOid nid) (newTrainer rt now trainer))
         (get_trainers (snd (post_trainers_apply rt now nid trainer st))))"
  by (intro conjI create_user create_testimonial create_class create_forum_post create_review
      create_subscriber create_booking create_application)

lemma get_full_body:
  "get full_body ''email'' = JStr ''eve@example.com''" "get full_body ''_id'' = JUndefined"
  "truthy (get full_body ''name'')" "truthy (get full_body ''review'')"
  "truthy (get full_body ''image'')" "truthy (get full_body ''details'')"
  "truthy (get full_body ''userEmail'')" "get full_body ''trainerId'' = JStr hexb"
  by (simp_all add: full_body_def get_def)

lemma empty_store_fields:
  "users empty_store = []" "testimonials empty_store = []" "classes empty_store = []"
  "trainers empty_store = []" "forum empty_store = []" "subscriber empty_store = []"
  "reviews empty_store = []" "bookings empty_store = []"
  by (simp_all add: empty_store_def)

text \<open>The amended C4 on the empty store, with one body that has every required field.\<close>

theorem create_then_list_witness:
  "status (fst (post_users (mk_oid hexa) full_body empty_store)) = 201
   \<and> listed (put ''_id'' (JOid (mk_oid hexa)) (put ''role'' (JStr ''member'') full_body))
        (get_users (snd (post_users (mk_oid hexa) full_body empty_store)))
   \<and> status (fst (post_testimonials 7 (mk_oid hexa) full_body empty_store)) = 201
   \<and> status (fst (post_classes 7 (mk_oid hexa) full_body empty_store)) = 201
   \<and> status (fst (post_forum (mk_oid hexa) full_body empty_store)) = 200
   \<and> (\<exists>q. listed_in ''posts'' (put ''_id'' (JOid (mk_oid hexa)) full_body)
          (get_forum (Some q) (snd (post_forum (mk_oid hexa) full_body empty_store))))
   \<and> status (fst (post_reviews 7 (mk_oid hexa) full_body empty_store)) = 200
   \<and> status (fst (post_subscribe 7 (mk_oid hexa) full_body empty_store)) = 200
   \<and> status (fst (post_payments 7 (mk_oid hexa) full_body empty_store)) = 201
   \<and> listed (put ''_id'' (JOid (mk_oid hexa))
          (put ''createdAt'' (JDate 7) (put ''status'' (JStr ''success'') full_body)))
        (get_bookings_trainer hexb (snd (post_payments 7 (mk_oid hexa) full_body empty_store)))
   \<and> status (fst (post_trainers_apply (\<lambda>v. NaN) 7 (mk_oid hexa) full_body empty_store)) = 200"
proof -
  have n: "hexb \<noteq> []" "''eve@example.com'' \<noteq> []" by (simp_all add: hexb_def)
  have f: "findOne (field_eq ''email'' (JStr ''eve@example.com'')) [] = None"
    by (simp add: findOne_def)
  have i: "JOid (mk_oid hexa) \<notin> set (ids [])" by (simp add: ids_def)
  show ?thesis
    using create_then_list [where user = full_body and e = "''eve@example.com''"
        and st = empty_store and nid = "mk_oid hexa" and testimonial = full_body and now = 7
        and newClass = full_body and post = full_body and review = full_body
        and reqbody = full_body and se = "''eve@example.com''" and payment = full_body
        and tid = hexb and rt = "\<lambda>v. NaN" and trainer = full_body and rx = "\<lambda>p. None"]
      n f i get_full_body
    by (simp add: empty_store_fields)
qed

end
